theory Spec2Isabelle
  imports Main "HOL-Library.Signed_Division" "HOL-Library.Sublist"
begin

section \<open>Go strings and numbers\<close>

text \<open>
  A Go string is a byte sequence, modelled as \<open>string\<close> (a list of 8-bit characters).
  The library functions below are the ones the three source files call, written for
  ASCII text: \<open>ToUpper\<close>, \<open>EqualFold\<close> and the \<open>(?i:...)\<close> patterns fold the letters
  \<open>a..z\<close> only and leave every other byte alone, and white space is the ASCII white
  space. Oracle identifiers, type names and the keywords \<open>AND\<close>, \<open>OR\<close>,
  \<open>IS NOT NULL\<close> are ASCII. On a string with a byte above 127 Go folds the letters of
  every script and replaces invalid UTF-8, which these definitions do not follow:
  a statement about an arbitrary name that is folded assumes \<open>isASCII\<close> of it.
\<close>

definition isASCII :: "string \<Rightarrow> bool" where
  "isASCII s = list_all (\<lambda>c. (of_char c :: nat) < 128) s"

definition lower_letters :: string where
  "lower_letters = ''abcdefghijklmnopqrstuvwxyz''"

definition upper_letters :: string where
  "upper_letters = ''ABCDEFGHIJKLMNOPQRSTUVWXYZ''"

definition upper_char :: "char \<Rightarrow> char" where
  "upper_char c =
     (case map_of (zip lower_letters upper_letters) c of None \<Rightarrow> c | Some u \<Rightarrow> u)"

definition lower_char :: "char \<Rightarrow> char" where
  "lower_char c =
     (case map_of (zip upper_letters lower_letters) c of None \<Rightarrow> c | Some l \<Rightarrow> l)"

definition ToUpper :: "string \<Rightarrow> string" where
  "ToUpper s = map upper_char s"

definition ToLower :: "string \<Rightarrow> string" where
  "ToLower s = map lower_char s"

definition EqualFold :: "string \<Rightarrow> string \<Rightarrow> bool" where
  "EqualFold s t = (map upper_char s = map upper_char t)"

text \<open>\<open>unicode.IsSpace\<close> on ASCII: tab, line feed, vertical tab, form feed, carriage
  return and space. The regular-expression class \<open>\s\<close> is the same set without the
  vertical tab.\<close>

definition isSpace :: "char \<Rightarrow> bool" where
  "isSpace c = (c \<in> set [CHR 0x09, CHR 0x0A, CHR 0x0B, CHR 0x0C, CHR 0x0D, CHR 0x20])"

definition isRegexpSpace :: "char \<Rightarrow> bool" where
  "isRegexpSpace c = (c \<in> set [CHR 0x09, CHR 0x0A, CHR 0x0C, CHR 0x0D, CHR 0x20])"

definition TrimSpace :: "string \<Rightarrow> string" where
  "TrimSpace s = rev (dropWhile isSpace (rev (dropWhile isSpace s)))"

text \<open>\<open>strings.Fields\<close>: the maximal runs of non-space characters, in order. The
  accumulator \<open>cur\<close> is the field being read.\<close>

fun fields_acc :: "string \<Rightarrow> string \<Rightarrow> string list" where
  "fields_acc cur [] = (if cur = [] then [] else [cur])"
| "fields_acc cur (c # cs) =
     (if isSpace c then (if cur = [] then fields_acc [] cs else cur # fields_acc [] cs)
      else fields_acc (cur @ [c]) cs)"

definition Fields :: "string \<Rightarrow> string list" where
  "Fields s = fields_acc [] s"

text \<open>\<open>strings.Split(s, sep)\<close> for a one-character separator: always at least one
  piece, \<open>Split "" "," = [""]\<close>.\<close>

fun split_acc :: "char \<Rightarrow> string \<Rightarrow> string \<Rightarrow> string list" where
  "split_acc sep cur [] = [cur]"
| "split_acc sep cur (c # cs) =
     (if c = sep then cur # split_acc sep [] cs else split_acc sep (cur @ [c]) cs)"

definition Split :: "string \<Rightarrow> char \<Rightarrow> string list" where
  "Split s sep = split_acc sep [] s"

fun Join :: "string list \<Rightarrow> string \<Rightarrow> string" where
  "Join [] sep = []"
| "Join [x] sep = x"
| "Join (x # y # ys) sep = x @ sep @ Join (y # ys) sep"

text \<open>\<open>strings.Contains\<close>, and its case-folding variant for an unanchored
  \<open>(?i:...)\<close> literal pattern.\<close>

fun Contains :: "string \<Rightarrow> string \<Rightarrow> bool" where
  "Contains [] sub = (sub = [])"
| "Contains (c # cs) sub = (prefix sub (c # cs) \<or> Contains cs sub)"

definition ContainsFold :: "string \<Rightarrow> string \<Rightarrow> bool" where
  "ContainsFold s sub = Contains (map upper_char s) (map upper_char sub)"

text \<open>\<open>strings.Replace(s, old, new, -1)\<close> for a one-character \<open>old\<close>.\<close>

definition ReplaceAll :: "string \<Rightarrow> char \<Rightarrow> string \<Rightarrow> string" where
  "ReplaceAll s old new = concat (map (\<lambda>c. if c = old then new else [c]) s)"

text \<open>Go's \<open>int\<close> is a 64-bit signed integer; values are kept as \<open>int\<close> and
  \<open>Atoi\<close> refuses what does not fit.\<close>

definition digit_char :: "nat \<Rightarrow> char" where
  "digit_char d = ''0123456789'' ! d"

fun digits :: "nat \<Rightarrow> string" where
  "digits n = (if n < 10 then [digit_char n] else digits (n div 10) @ [digit_char (n mod 10)])"

declare digits.simps [simp del]

text \<open>\<open>strconv.Itoa\<close> and the verb \<open>%d\<close> of \<open>fmt.Sprintf\<close>.\<close>

definition Itoa :: "int \<Rightarrow> string" where
  "Itoa i = (if i < 0 then CHR ''-'' # digits (nat (- i)) else digits (nat i))"

definition isDigit :: "char \<Rightarrow> bool" where
  "isDigit c = (let n = (of_char c :: nat) in 48 \<le> n \<and> n \<le> 57)"

definition digit_val :: "char \<Rightarrow> nat" where
  "digit_val c = of_char c - 48"

definition digits_val :: "string \<Rightarrow> nat" where
  "digits_val s = foldl (\<lambda>acc c. 10 * acc + digit_val c) 0 s"

text \<open>\<open>strconv.Atoi\<close>: an optional sign, then at least one decimal digit and nothing
  else; the value must lie in the 64-bit range. \<open>None\<close> is the \<open>*NumError\<close>.\<close>

definition Atoi :: "string \<Rightarrow> int option" where
  "Atoi s =
     (let neg = (s \<noteq> [] \<and> hd s = CHR ''-'');
          body = (if s \<noteq> [] \<and> (hd s = CHR ''-'' \<or> hd s = CHR ''+'') then tl s else s)
      in if body = [] \<or> \<not> list_all isDigit body then None
         else (let v = (if neg then - int (digits_val body) else int (digits_val body))
               in if - (2 ^ 63) \<le> v \<and> v \<le> 2 ^ 63 - 1 then Some v else None))"


section \<open>Errors\<close>

text \<open>
  A Go \<open>error\<close> result and a run-time panic are values. The message texts are not
  kept: an error says where it was raised. \<open>IOError\<close> is whatever a call of the
  Oracle catalog, the rule store or the metadata store returned; \<open>Errorf\<close> is
  \<open>fmt.Errorf\<close> around such a cause.
\<close>

datatype error =
    InvalidMetadata string
  | IOError string
  | Errorf string error
  | MultiplePK
  | UnsupportedCollation string
  | UnsupportedIndex
  | UnsupportedTableOption
  | IndexOutOfRange
  | DivideByZero

section \<open>Type mapping (pkg/reverser/rule.go)\<close>

subsection \<open>Rule store rows\<close>

record ColumnRuleMap =
  SourceColumnName :: string
  SourceColumnType :: string
  TargetColumnType :: string

record TableRuleMap =
  SourceColumnType :: string
  TargetColumnType :: string

record SchemaRuleMap =
  SourceColumnType :: string
  TargetColumnType :: string

record DefaultValueMap =
  SourceDefaultValue :: string
  TargetDefaultValue :: string

text \<open>The four rule-store reads of \<open>service.Engine\<close> that the mapper calls; what each
  returns is an input of the model.\<close>

record RuleEngine =
  GetColumnRuleMap :: "string \<Rightarrow> string \<Rightarrow> error + ColumnRuleMap list"
  GetTableRuleMap :: "string \<Rightarrow> string \<Rightarrow> error + TableRuleMap list"
  GetSchemaRuleMap :: "string \<Rightarrow> error + SchemaRuleMap list"
  GetDefaultValueMap :: "error + DefaultValueMap list"

subsection \<open>Rule lookups\<close>

definition loadDataTypeRuleOnlyUsingColumn ::
  "string \<Rightarrow> string \<Rightarrow> string \<Rightarrow> ColumnRuleMap list \<Rightarrow> string" where
  "loadDataTypeRuleOnlyUsingColumn columnName originColumnType buildInColumnType columnDataTypeMapSlice =
     (if length columnDataTypeMapSlice = 0 then buildInColumnType
      else (case find (\<lambda>col. ToUpper (SourceColumnName col) = ToUpper columnName \<and>
                              ToUpper (ColumnRuleMap.SourceColumnType col) = ToUpper originColumnType \<and>
                              ColumnRuleMap.TargetColumnType col \<noteq> [])
                      columnDataTypeMapSlice of
              Some col \<Rightarrow> ColumnRuleMap.TargetColumnType col
            | None \<Rightarrow> buildInColumnType))"

definition loadDataTypeRuleOnlyUsingTable ::
  "string \<Rightarrow> string \<Rightarrow> TableRuleMap list \<Rightarrow> string" where
  "loadDataTypeRuleOnlyUsingTable originColumnType buildInColumnType tableDataTypeMapSlice =
     (if length tableDataTypeMapSlice = 0 then buildInColumnType
      else (case find (\<lambda>tbl. ToUpper (TableRuleMap.SourceColumnType tbl) = ToUpper originColumnType \<and>
                              TableRuleMap.TargetColumnType tbl \<noteq> [])
                      tableDataTypeMapSlice of
              Some tbl \<Rightarrow> TableRuleMap.TargetColumnType tbl
            | None \<Rightarrow> buildInColumnType))"

definition loadDataTypeRuleOnlyUsingSchema ::
  "string \<Rightarrow> string \<Rightarrow> SchemaRuleMap list \<Rightarrow> string" where
  "loadDataTypeRuleOnlyUsingSchema originColumnType buildInColumnType schemaDataTypeMapSlice =
     (if length schemaDataTypeMapSlice = 0 then buildInColumnType
      else (case find (\<lambda>tbl. ToUpper (SchemaRuleMap.SourceColumnType tbl) = ToUpper originColumnType \<and>
                              SchemaRuleMap.TargetColumnType tbl \<noteq> [])
                      schemaDataTypeMapSlice of
              Some tbl \<Rightarrow> SchemaRuleMap.TargetColumnType tbl
            | None \<Rightarrow> buildInColumnType))"

definition loadDataTypeRuleUsingTableAndSchema ::
  "string \<Rightarrow> string \<Rightarrow> TableRuleMap list \<Rightarrow> SchemaRuleMap list \<Rightarrow> string" where
  "loadDataTypeRuleUsingTableAndSchema originColumnType buildInColumnType tableDataTypeMapSlice schemaDataTypeMapSlice =
     (let customTableDataType =
            loadDataTypeRuleOnlyUsingTable originColumnType buildInColumnType tableDataTypeMapSlice;
          customSchemaDataType =
            loadDataTypeRuleOnlyUsingSchema originColumnType buildInColumnType schemaDataTypeMapSlice
      in if customTableDataType = buildInColumnType \<and> customSchemaDataType \<noteq> buildInColumnType
           then customSchemaDataType
         else if customTableDataType \<noteq> buildInColumnType \<and> customSchemaDataType = buildInColumnType
           then customTableDataType
         else if customTableDataType \<noteq> buildInColumnType \<and> customSchemaDataType \<noteq> buildInColumnType
           then customTableDataType
         else buildInColumnType)"

text \<open>The source's \<open>default: panic\<close> arm cannot be reached: the four cases above it
  cover both lengths being zero or not.\<close>

definition loadDataTypeRuleUsingTableOrSchema ::
  "string \<Rightarrow> string \<Rightarrow> TableRuleMap list \<Rightarrow> SchemaRuleMap list \<Rightarrow> string" where
  "loadDataTypeRuleUsingTableOrSchema originColumnType buildInColumnType tableDataTypeMapSlice schemaDataTypeMapSlice =
     (if length tableDataTypeMapSlice \<noteq> 0 \<and> length schemaDataTypeMapSlice = 0
        then loadDataTypeRuleOnlyUsingTable originColumnType buildInColumnType tableDataTypeMapSlice
      else if length tableDataTypeMapSlice \<noteq> 0 \<and> length schemaDataTypeMapSlice \<noteq> 0
        then loadDataTypeRuleUsingTableAndSchema originColumnType buildInColumnType
               tableDataTypeMapSlice schemaDataTypeMapSlice
      else if length tableDataTypeMapSlice = 0 \<and> length schemaDataTypeMapSlice \<noteq> 0
        then loadDataTypeRuleOnlyUsingSchema originColumnType buildInColumnType schemaDataTypeMapSlice
      else buildInColumnType)"

definition changeOracleTableColumnType ::
  "string \<Rightarrow> string \<Rightarrow> string \<Rightarrow> ColumnRuleMap list \<Rightarrow> TableRuleMap list \<Rightarrow>
   SchemaRuleMap list \<Rightarrow> string" where
  "changeOracleTableColumnType columnName originColumnType buildInColumnType
       columnDataTypeMapSlice tableDataTypeMapSlice schemaDataTypeMapSlice =
     (if length columnDataTypeMapSlice = 0
        then loadDataTypeRuleUsingTableOrSchema originColumnType buildInColumnType
               tableDataTypeMapSlice schemaDataTypeMapSlice
      else
        (let columnTypeFromColumn =
               loadDataTypeRuleOnlyUsingColumn columnName originColumnType buildInColumnType
                 columnDataTypeMapSlice;
             columnTypeFromOther =
               loadDataTypeRuleUsingTableOrSchema originColumnType buildInColumnType
                 tableDataTypeMapSlice schemaDataTypeMapSlice
         in if columnTypeFromColumn \<noteq> buildInColumnType \<and> columnTypeFromOther = buildInColumnType
              then ToUpper columnTypeFromColumn
            else if columnTypeFromColumn \<noteq> buildInColumnType \<and> columnTypeFromOther \<noteq> buildInColumnType
              then ToUpper columnTypeFromColumn
            else if columnTypeFromColumn = buildInColumnType \<and> columnTypeFromOther \<noteq> buildInColumnType
              then ToUpper columnTypeFromOther
            else ToUpper buildInColumnType))"

definition loadDataDefaultValueRule :: "string \<Rightarrow> DefaultValueMap list \<Rightarrow> string" where
  "loadDataDefaultValueRule defaultValue defaultValueMapSlice =
     (if length defaultValueMapSlice = 0 then defaultValue
      else (case find (\<lambda>dv. ToUpper (SourceDefaultValue dv) = ToUpper defaultValue \<and>
                             TargetDefaultValue dv \<noteq> [])
                      defaultValueMapSlice of
              Some dv \<Rightarrow> TargetDefaultValue dv
            | None \<Rightarrow> defaultValue))"

subsection \<open>Column meta\<close>

text \<open>\<open>regexp.MatchString("'(.*)'", s)\<close>: somewhere in \<open>s\<close> a single quote is followed,
  before the line ends, by another single quote (\<open>.\<close> matches any character but the
  line feed).\<close>

fun closes_quote :: "string \<Rightarrow> bool" where
  "closes_quote [] = False"
| "closes_quote (c # cs) =
     (if c = CHR 0x27 then True else if c = CHR 0x0A then False else closes_quote cs)"

fun MatchQuoted :: "string \<Rightarrow> bool" where
  "MatchQuoted [] = False"
| "MatchQuoted (c # cs) = ((c = CHR 0x27 \<and> closes_quote cs) \<or> MatchQuoted cs)"

definition generateOracleTableColumnMeta ::
  "string \<Rightarrow> string \<Rightarrow> string \<Rightarrow> string \<Rightarrow> string \<Rightarrow> DefaultValueMap list \<Rightarrow> string" where
  "generateOracleTableColumnMeta columnName columnType dataNullable comments defaultValue
       defaultValueMapSlice =
     (let nullable = (if dataNullable = ''Y'' then ''NULL'' else ''NOT NULL'');
          comment =
            (if comments \<noteq> [] then
               (let comments' = (if Contains comments [CHR 0x22]
                                 then ReplaceAll comments (CHR 0x22) [CHR 0x27] else comments)
                in if MatchQuoted comments' then [CHR 0x22] @ comments' @ [CHR 0x22]
                   else [CHR 0x27] @ comments' @ [CHR 0x27])
             else []);
          dataDefault =
            (if defaultValue \<noteq> [] then loadDataDefaultValueRule defaultValue defaultValueMapSlice
             else defaultValue)
      in if nullable = ''NULL'' then
           (if comment \<noteq> [] \<and> dataDefault \<noteq> [] then
              ''`'' @ columnName @ ''` '' @ columnType @ '' DEFAULT '' @ dataDefault @ '' COMMENT '' @ comment
            else if comment \<noteq> [] \<and> dataDefault = [] then
              ''`'' @ columnName @ ''` '' @ columnType @ '' COMMENT '' @ comment
            else if comment = [] \<and> dataDefault \<noteq> [] then
              ''`'' @ columnName @ ''` '' @ columnType @ '' DEFAULT '' @ dataDefault
            else
              ''`'' @ columnName @ ''` '' @ columnType)
         else
           (if comment \<noteq> [] \<and> dataDefault \<noteq> [] then
              ''`'' @ columnName @ ''` '' @ columnType @ '' '' @ nullable @ '' DEFAULT '' @ dataDefault
                @ '' COMMENT '' @ comment
            else if comment \<noteq> [] \<and> dataDefault = [] then
              ''`'' @ columnName @ ''` '' @ columnType @ '' '' @ nullable @ '' COMMENT '' @ comment
            else if comment = [] \<and> dataDefault \<noteq> [] then
              ''`'' @ columnName @ ''` '' @ columnType @ '' '' @ nullable @ '' DEFAULT '' @ dataDefault
            else
              ''`'' @ columnName @ ''` '' @ columnType @ '' '' @ nullable))"

subsection \<open>The built-in mapping\<close>

text \<open>
  \<open>ReverseOracleTableColumnMapRule\<close> is one \<open>switch\<close> over the upper-cased type name.
  Every arm sets \<open>originColumnType\<close> and \<open>buildInColumnType\<close> and then runs the same
  two calls; \<open>columnTypes\<close> is the part of the arms that differs, the pair
  \<open>(originColumnType, buildInColumnType)\<close>. In the \<open>NUMBER\<close> arm a negative scale
  matches neither case of the inner \<open>switch\<close> and leaves both strings empty.
\<close>

definition columnTypes :: "string \<Rightarrow> int \<Rightarrow> int \<Rightarrow> int \<Rightarrow> string \<times> string" where
  "columnTypes dataType dataLength dataPrecision dataScale =
     (let t = ToUpper dataType in
      if t = ''NUMBER'' then
        (if dataScale > 0 then
           (''NUMBER('' @ Itoa dataPrecision @ '','' @ Itoa dataScale @ '')'',
            ''DECIMAL('' @ Itoa dataPrecision @ '','' @ Itoa dataScale @ '')'')
         else if dataScale = 0 then
           (if dataPrecision = 0 \<and> dataScale = 0 then (''NUMBER'', ''DECIMAL(65,30)'')
            else if dataPrecision \<ge> 1 \<and> dataPrecision < 3 then
              (''NUMBER('' @ Itoa dataPrecision @ '')'', ''TINYINT'')
            else if dataPrecision \<ge> 3 \<and> dataPrecision < 5 then
              (''NUMBER('' @ Itoa dataPrecision @ '')'', ''SMALLINT'')
            else if dataPrecision \<ge> 5 \<and> dataPrecision < 9 then
              (''NUMBER('' @ Itoa dataPrecision @ '')'', ''INT'')
            else if dataPrecision \<ge> 9 \<and> dataPrecision < 19 then
              (''NUMBER('' @ Itoa dataPrecision @ '')'', ''BIGINT'')
            else if dataPrecision \<ge> 19 \<and> dataPrecision \<le> 38 then
              (''NUMBER('' @ Itoa dataPrecision @ '')'', ''DECIMAL('' @ Itoa dataPrecision @ '')'')
            else
              (''NUMBER('' @ Itoa dataPrecision @ '')'', ''DECIMAL('' @ Itoa dataPrecision @ '',4)''))
         else ([], []))
      else if t = ''BFILE'' then (''BFILE'', ''VARCHAR(255)'')
      else if t = ''CHAR'' then
        (''CHAR('' @ Itoa dataLength @ '')'',
         if dataLength < 256 then ''CHAR('' @ Itoa dataLength @ '')''
         else ''VARCHAR('' @ Itoa dataLength @ '')'')
      else if t = ''CHARACTER'' then
        (''CHARACTER('' @ Itoa dataLength @ '')'',
         if dataLength < 256 then ''CHARACTER('' @ Itoa dataLength @ '')''
         else ''VARCHAR('' @ Itoa dataLength @ '')'')
      else if t = ''CLOB'' then (''CLOB'', ''LONGTEXT'')
      else if t = ''BLOB'' then (''BLOB'', ''BLOB'')
      else if t = ''DATE'' then (''DATE'', ''DATETIME'')
      else if t = ''DECIMAL'' then
        (if dataScale = 0 \<and> dataPrecision = 0 then (''DECIMAL'', ''DECIMAL'')
         else (''DECIMAL('' @ Itoa dataPrecision @ '','' @ Itoa dataScale @ '')'',
               ''DECIMAL('' @ Itoa dataPrecision @ '','' @ Itoa dataScale @ '')''))
      else if t = ''DEC'' then
        (if dataScale = 0 \<and> dataPrecision = 0 then (''DECIMAL'', ''DECIMAL'')
         else (''DECIMAL('' @ Itoa dataPrecision @ '','' @ Itoa dataScale @ '')'',
               ''DECIMAL('' @ Itoa dataPrecision @ '','' @ Itoa dataScale @ '')''))
      else if t = ''DOUBLE PRECISION'' then (''DOUBLE PRECISION'', ''DOUBLE PRECISION'')
      else if t = ''FLOAT'' then (''FLOAT'', if dataPrecision = 0 then ''FLOAT'' else ''DOUBLE'')
      else if t = ''INTEGER'' then (''INTEGER'', ''INT'')
      else if t = ''INT'' then (''INTEGER'', ''INT'')
      else if t = ''LONG'' then (''LONG'', ''LONGTEXT'')
      else if t = ''LONG RAW'' then (''LONG RAW'', ''LONGBLOB'')
      else if t = ''BINARY_FLOAT'' then (''BINARY_FLOAT'', ''DOUBLE'')
      else if t = ''BINARY_DOUBLE'' then (''BINARY_DOUBLE'', ''DOUBLE'')
      else if t = ''NCHAR'' then
        (''NCHAR('' @ Itoa dataLength @ '')'',
         if dataLength < 256 then ''NCHAR('' @ Itoa dataLength @ '')''
         else ''NVARCHAR('' @ Itoa dataLength @ '')'')
      else if t = ''NCHAR VARYING'' then
        (''NCHAR VARYING'', ''NCHAR VARYING('' @ Itoa dataLength @ '')'')
      else if t = ''NCLOB'' then (''NCLOB'', ''TEXT'')
      else if t = ''NUMERIC'' then
        (''NUMERIC('' @ Itoa dataPrecision @ '','' @ Itoa dataScale @ '')'',
         ''NUMERIC('' @ Itoa dataPrecision @ '','' @ Itoa dataScale @ '')'')
      else if t = ''NVARCHAR2'' then
        (''NVARCHAR2('' @ Itoa dataLength @ '')'', ''NVARCHAR('' @ Itoa dataLength @ '')'')
      else if t = ''RAW'' then
        (''RAW('' @ Itoa dataLength @ '')'',
         if dataLength < 256 then ''BINARY('' @ Itoa dataLength @ '')''
         else ''VARBINARY('' @ Itoa dataLength @ '')'')
      else if t = ''REAL'' then (''real'', ''DOUBLE'')
      else if t = ''ROWID'' then (''ROWID'', ''CHAR(10)'')
      else if t = ''SMALLINT'' then (''SMALLINT'', ''DECIMAL(38)'')
      else if t = ''UROWID'' then (''UROWID'', ''VARCHAR('' @ Itoa dataLength @ '')'')
      else if t = ''VARCHAR2'' then
        (''VARCHAR2('' @ Itoa dataLength @ '')'', ''VARCHAR('' @ Itoa dataLength @ '')'')
      else if t = ''VARCHAR'' then
        (''VARCHAR('' @ Itoa dataLength @ '')'', ''VARCHAR('' @ Itoa dataLength @ '')'')
      else if t = ''XMLTYPE'' then (''XMLTYPE'', ''LONGTEXT'')
      else if Contains dataType ''INTERVAL'' then (dataType, ''VARCHAR(30)'')
      else if Contains dataType ''TIMESTAMP'' then
        (dataType,
         if Contains dataType ''WITH TIME ZONE'' \<or> Contains dataType ''WITH LOCAL TIME ZONE'' then
           (if dataScale \<le> 6 then ''DATETIME('' @ Itoa dataScale @ '')''
            else ''DATETIME('' @ Itoa 6 @ '')'')
         else
           (if dataScale \<le> 6 then ''TIMESTAMP('' @ Itoa dataScale @ '')''
            else ''TIMESTAMP('' @ Itoa 6 @ '')''))
      else (dataType, ''TEXT''))"

text \<open>The whole function: the three numeric catalog fields are parsed first (length,
  precision, scale, in that order), then the four rule-store reads, then the mapping.\<close>

definition ReverseOracleTableColumnMapRule ::
  "string \<Rightarrow> string \<Rightarrow> string \<Rightarrow> string \<Rightarrow> string \<Rightarrow> string \<Rightarrow> string \<Rightarrow>
   (string \<Rightarrow> string \<Rightarrow> string \<Rightarrow> RuleEngine \<Rightarrow> error + string)" where
  "ReverseOracleTableColumnMapRule sourceSchema sourceTableName columnName dataType dataNullable
       comments dataDefault dataScaleValue dataPrecisionValue dataLengthValue engine =
     (case Atoi dataLengthValue of
        None \<Rightarrow> Inl (InvalidMetadata ''data_length'')
      | Some dataLength \<Rightarrow>
     (case Atoi dataPrecisionValue of
        None \<Rightarrow> Inl (InvalidMetadata ''data_precision'')
      | Some dataPrecision \<Rightarrow>
     (case Atoi dataScaleValue of
        None \<Rightarrow> Inl (InvalidMetadata ''data_scale'')
      | Some dataScale \<Rightarrow>
     (case GetColumnRuleMap engine sourceSchema sourceTableName of
        Inl err \<Rightarrow> Inl err
      | Inr columnDataTypeMapSlice \<Rightarrow>
     (case GetTableRuleMap engine sourceSchema sourceTableName of
        Inl err \<Rightarrow> Inl err
      | Inr tableDataTypeMapSlice \<Rightarrow>
     (case GetSchemaRuleMap engine sourceSchema of
        Inl err \<Rightarrow> Inl err
      | Inr schemaDataTypeMapSlice \<Rightarrow>
     (case GetDefaultValueMap engine of
        Inl err \<Rightarrow> Inl err
      | Inr defaultValueMapSlice \<Rightarrow>
        (let (originColumnType, buildInColumnType) =
               columnTypes dataType dataLength dataPrecision dataScale;
             modifyColumnType =
               changeOracleTableColumnType columnName originColumnType buildInColumnType
                 columnDataTypeMapSlice tableDataTypeMapSlice schemaDataTypeMapSlice
         in Inr (generateOracleTableColumnMeta columnName modifyColumnType dataNullable comments
                   dataDefault defaultValueMapSlice)))))))))"

subsection \<open>Auxiliary notions for the statements about the mapper\<close>

text \<open>No rule of the three type-rule slices applies to the column: none matches the
  column's origin type (and, at column scope, its name) with a non-empty target.\<close>

definition noTypeOverride ::
  "string \<Rightarrow> string \<Rightarrow> ColumnRuleMap list \<Rightarrow> TableRuleMap list \<Rightarrow> SchemaRuleMap list \<Rightarrow> bool" where
  "noTypeOverride columnName originColumnType cs ts ss =
     (\<not> list_ex (\<lambda>col. ToUpper (SourceColumnName col) = ToUpper columnName \<and>
                        ToUpper (ColumnRuleMap.SourceColumnType col) = ToUpper originColumnType \<and>
                        ColumnRuleMap.TargetColumnType col \<noteq> []) cs \<and>
      \<not> list_ex (\<lambda>tbl. ToUpper (TableRuleMap.SourceColumnType tbl) = ToUpper originColumnType \<and>
                        TableRuleMap.TargetColumnType tbl \<noteq> []) ts \<and>
      \<not> list_ex (\<lambda>tbl. ToUpper (SchemaRuleMap.SourceColumnType tbl) = ToUpper originColumnType \<and>
                        SchemaRuleMap.TargetColumnType tbl \<noteq> []) ss)"

text \<open>The strings of the rule store that the lookups fold are ASCII: the column names
  and source types of the type rules, and the source values of the default-value rules.\<close>

definition asciiRules ::
  "ColumnRuleMap list \<Rightarrow> TableRuleMap list \<Rightarrow> SchemaRuleMap list \<Rightarrow> DefaultValueMap list \<Rightarrow> bool" where
  "asciiRules cs ts ss dvs =
     (list_all (\<lambda>col. isASCII (SourceColumnName col) \<and> isASCII (ColumnRuleMap.SourceColumnType col)) cs \<and>
      list_all (\<lambda>tbl. isASCII (TableRuleMap.SourceColumnType tbl)) ts \<and>
      list_all (\<lambda>tbl. isASCII (SchemaRuleMap.SourceColumnType tbl)) ss \<and>
      list_all (\<lambda>dv. isASCII (SourceDefaultValue dv)) dvs)"

text \<open>The built-in target of \<open>NUMBER(p)\<close> with scale 0, as the specification tabulates it.\<close>

definition numberTarget :: "int \<Rightarrow> string" where
  "numberTarget p =
     (if p = 0 then ''DECIMAL(65,30)''
      else if 1 \<le> p \<and> p < 3 then ''TINYINT''
      else if 3 \<le> p \<and> p < 5 then ''SMALLINT''
      else if 5 \<le> p \<and> p < 9 then ''INT''
      else if 9 \<le> p \<and> p < 19 then ''BIGINT''
      else if 19 \<le> p \<and> p \<le> 38 then ''DECIMAL('' @ Itoa p @ '')''
      else ''DECIMAL('' @ Itoa p @ '',4)'')"

text \<open>Two rule stores for concrete runs: an empty one, and one whose rules all miss a
  column \<open>ID\<close> of type \<open>NUMBER(7)\<close> (another column's rule, a rule with an empty
  target, a rule for another type).\<close>

definition noRules :: RuleEngine where
  "noRules = \<lparr>GetColumnRuleMap = (\<lambda>s t. Inr []), GetTableRuleMap = (\<lambda>s t. Inr []),
               GetSchemaRuleMap = (\<lambda>s. Inr []), GetDefaultValueMap = Inr []\<rparr>"

definition missingRules :: RuleEngine where
  "missingRules =
     \<lparr>GetColumnRuleMap = (\<lambda>s t. Inr [\<lparr>SourceColumnName = ''NAME'', SourceColumnType = ''NUMBER(7)'',
                                           TargetColumnType = ''BIGINT''\<rparr>]),
      GetTableRuleMap = (\<lambda>s t. Inr [\<lparr>TableRuleMap.SourceColumnType = ''NUMBER(7)'',
                                          TargetColumnType = []\<rparr>]),
      GetSchemaRuleMap = (\<lambda>s. Inr [\<lparr>SchemaRuleMap.SourceColumnType = ''DATE'',
                                         TargetColumnType = ''TIMESTAMP''\<rparr>]),
      GetDefaultValueMap = Inr []\<rparr>"

section \<open>Constraint translation (pkg/reverse/o2m/table.go)\<close>

subsection \<open>Catalog rows and the table plan\<close>

text \<open>A catalog row is a Go \<open>map[string]string\<close>; reading a key that is not there gives
  the empty string.\<close>

type_synonym row = "string \<rightharpoonup> string"

definition row_get :: "row \<Rightarrow> string \<Rightarrow> string" where
  "row_get r k = (case r k of None \<Rightarrow> [] | Some v \<Rightarrow> v)"

text \<open>The reads of \<open>service.Engine\<close> that the translator calls, each with what it
  returns as an input of the model.\<close>

record CatalogEngine =
  GetOracleTablePrimaryKey :: "string \<Rightarrow> string \<Rightarrow> error + row list"
  GetOracleTableUniqueKey :: "string \<Rightarrow> string \<Rightarrow> error + row list"
  GetOracleTableCheckKey :: "string \<Rightarrow> string \<Rightarrow> error + row list"
  GetOracleTableNormalIndex :: "string \<Rightarrow> string \<Rightarrow> error + row list"
  GetOracleTableUniqueIndex :: "string \<Rightarrow> string \<Rightarrow> error + row list"
  GetOracleTableColumn :: "string \<Rightarrow> string \<Rightarrow> bool \<Rightarrow> error + row list"
  GetOracleTableComment :: "string \<Rightarrow> string \<Rightarrow> error + row list"
  GetTiDBClusteredIndexValue :: "error + string"
  GetTiDBAlterPKValue :: "error + string"

record Table =
  SourceSchemaName :: string
  TargetSchemaName :: string
  SourceTableName :: string
  TargetDBType :: string
  TargetTableName :: string
  TargetTableOption :: string
  OracleCollation :: bool
  SourceSchemaCollation :: string
  SourceTableCollation :: string
  SourceDBNLSSort :: string
  SourceDBNLSComp :: string
  SourceTableType :: string
  Overwrite :: bool
  Engine :: CatalogEngine

subsection \<open>Primary key\<close>

text \<open>The two results are \<open>keysMeta\<close> (the fragments) and \<open>pkArr\<close> (the quoted
  columns, not upper-cased).\<close>

definition reverserOracleTablePKToMySQL :: "Table \<Rightarrow> error + (string list \<times> string list)" where
  "reverserOracleTablePKToMySQL t =
     (case GetOracleTablePrimaryKey (Engine t) (Table.SourceSchemaName t) (Table.SourceTableName t) of
        Inl err \<Rightarrow> Inl err
      | Inr primaryKeyMap \<Rightarrow>
          if length primaryKeyMap > 1 then Inl MultiplePK
          else if length primaryKeyMap > 0 then
            (let pkArr = map (\<lambda>col. ''`'' @ col @ ''`'')
                           (Split (row_get (primaryKeyMap ! 0) ''COLUMN_LIST'') (CHR '',''));
                 pk = ''PRIMARY KEY ('' @ ToUpper (Join pkArr '','') @ '')''
             in Inr ([pk], pkArr))
          else Inr ([], []))"

subsection \<open>Check constraints\<close>

text \<open>
  The three patterns, matched anywhere in the text as \<open>MatchString\<close> does:
  \<^item> \<open>\s+(?i:AND)\s+|\s+(?i:OR)\s+\<close>: a white-space character, then \<open>AND\<close> or \<open>OR\<close> in
    any case, then a white-space character (\<open>MatchConnector\<close>);
  \<^item> \<open>(^.*)(?i:IS NOT NULL)\<close>: \<open>IS NOT NULL\<close> in any case, with no line feed between the
    start of the text and it (\<open>MatchLeadingIsNotNull\<close>);
  \<^item> \<open>(.*)(?i:IS NOT NULL)\<close>: \<open>IS NOT NULL\<close> in any case, anywhere
    (\<open>ContainsFold s ''IS NOT NULL''\<close>).
\<close>

definition keywordThenSpace :: "string \<Rightarrow> string \<Rightarrow> bool" where
  "keywordThenSpace kw cs =
     (map upper_char (take (length kw) cs) = kw \<and>
      (case drop (length kw) cs of [] \<Rightarrow> False | d # ds \<Rightarrow> isRegexpSpace d))"

fun MatchConnector :: "string \<Rightarrow> bool" where
  "MatchConnector [] = False"
| "MatchConnector (c # cs) =
     ((isRegexpSpace c \<and> (keywordThenSpace ''AND'' cs \<or> keywordThenSpace ''OR'' cs))
      \<or> MatchConnector cs)"

fun MatchLeadingIsNotNull :: "string \<Rightarrow> bool" where
  "MatchLeadingIsNotNull [] = False"
| "MatchLeadingIsNotNull (c # cs) =
     (prefix ''IS NOT NULL'' (map upper_char (c # cs))
      \<or> (c \<noteq> CHR 0x0A \<and> MatchLeadingIsNotNull cs))"

definition isConnector :: "string \<Rightarrow> bool" where
  "isConnector val = (EqualFold val ''AND'' \<or> EqualFold val ''OR'')"

text \<open>The slice expression \<open>strArray[a:b]\<close>; the source only takes slices with
  \<open>a \<le> b \<le> len(strArray)\<close>.\<close>

definition slice :: "'a list \<Rightarrow> nat \<Rightarrow> nat \<Rightarrow> 'a list" where
  "slice xs a b = take (b - a) (drop a xs)"

definition checkFragment :: "row \<Rightarrow> string \<Rightarrow> string" where
  "checkFragment rowCKCol cond =
     ''CONSTRAINT `'' @ ToUpper (row_get rowCKCol ''CONSTRAINT_NAME'') @ ''` CHECK ('' @ cond @ '')''"

text \<open>
  The body of the loop over the catalog rows with a connector in the condition: the
  fragment, or the panic of \<open>d[0]\<close> or of \<open>d[len(d)-1]\<close> on an empty \<open>d\<close>.
  \<open>idxArray\<close> holds the positions of the connector tokens and then \<open>len(strArray)\<close>;
  \<open>checkArray\<close> joins the tokens between one position and the next (from 0 for the
  first).
\<close>

definition connectorClauses :: "row \<Rightarrow> string \<Rightarrow> error + string" where
  "connectorClauses rowCKCol s =
     (let strArray = Fields s;
          idxArray = filter (\<lambda>idx. isConnector (strArray ! idx)) [0..<length strArray]
                     @ [length strArray];
          checkArray = map (\<lambda>(prev, val). Join (slice strArray prev val) '' '')
                         (zip (0 # idxArray) idxArray);
          constraintArray = filter (\<lambda>v. \<not> ContainsFold v ''IS NOT NULL'')
                              (map TrimSpace checkArray);
          sd = Join constraintArray '' '';
          d = Fields sd
      in if d = [] then Inl IndexOutOfRange
         else
           (let d1 = (if isConnector (d ! 0) then tl d else d)
            in if d1 = [] then Inl IndexOutOfRange
               else
                 (let d2 = (if isConnector (d1 ! (length d1 - 1)) then butlast d1 else d1)
                  in Inr (checkFragment rowCKCol (Join d2 '' '')))))"

fun checkRows :: "row list \<Rightarrow> string list \<Rightarrow> error + string list" where
  "checkRows [] keysMeta = Inr keysMeta"
| "checkRows (rowCKCol # rest) keysMeta =
     (let s = TrimSpace (row_get rowCKCol ''SEARCH_CONDITION'')
      in if \<not> MatchConnector s then
           (if \<not> MatchLeadingIsNotNull s then
              checkRows rest
                (keysMeta @ [checkFragment rowCKCol (row_get rowCKCol ''SEARCH_CONDITION'')])
            else checkRows rest keysMeta)
         else
           (case connectorClauses rowCKCol s of
              Inl err \<Rightarrow> Inl err
            | Inr fragment \<Rightarrow> checkRows rest (keysMeta @ [fragment])))"

definition reverserOracleTableCKToMySQL :: "Table \<Rightarrow> error + string list" where
  "reverserOracleTableCKToMySQL t =
     (case GetOracleTableCheckKey (Engine t) (Table.SourceSchemaName t) (Table.SourceTableName t) of
        Inl err \<Rightarrow> Inl err
      | Inr checkKeyMap \<Rightarrow>
          if length checkKeyMap > 0 then checkRows checkKeyMap [] else Inr [])"

subsection \<open>Tables for concrete runs\<close>

text \<open>A catalog whose reads all succeed with no rows, a table plan \<open>MARVIN.T1\<close> over a
  given catalog, and a check-constraint row.\<close>

definition emptyCatalog :: CatalogEngine where
  "emptyCatalog =
     \<lparr>GetOracleTablePrimaryKey = (\<lambda>s t. Inr []), GetOracleTableUniqueKey = (\<lambda>s t. Inr []),
      GetOracleTableCheckKey = (\<lambda>s t. Inr []), GetOracleTableNormalIndex = (\<lambda>s t. Inr []),
      GetOracleTableUniqueIndex = (\<lambda>s t. Inr []), GetOracleTableColumn = (\<lambda>s t c. Inr []),
      GetOracleTableComment = (\<lambda>s t. Inr []), GetTiDBClusteredIndexValue = Inr [],
      GetTiDBAlterPKValue = Inr []\<rparr>"

definition tableOver :: "CatalogEngine \<Rightarrow> Table" where
  "tableOver e =
     \<lparr>SourceSchemaName = ''MARVIN'', TargetSchemaName = ''MARVIN'', SourceTableName = ''T1'',
      TargetDBType = ''MYSQL'', TargetTableName = ''T1'', TargetTableOption = [],
      OracleCollation = False, SourceSchemaCollation = [], SourceTableCollation = [],
      SourceDBNLSSort = ''BINARY'', SourceDBNLSComp = ''BINARY'', SourceTableType = ''HEAP'',
      Overwrite = False, Engine = e\<rparr>"

definition checkRow :: "string \<Rightarrow> string \<Rightarrow> row" where
  "checkRow name cond = [''CONSTRAINT_NAME'' \<mapsto> name, ''SEARCH_CONDITION'' \<mapsto> cond]"

section \<open>Sync metadata (package service)\<close>

subsection \<open>The metadata store\<close>

text \<open>The two persisted entities, with the fields the code reads and writes.\<close>

record FullSyncMeta =
  SourceSchemaName :: string
  SourceTableName :: string
  RowidSQL :: string
  IsPartition :: string
  GlobalSCN :: int

record WaitSyncMeta =
  SourceSchemaName :: string
  SourceTableName :: string
  SyncMode :: string
  FullGlobalSCN :: int
  FullSplitTimes :: int
  IsPartition :: string

text \<open>
  The store behind \<open>e.GormDB\<close>: the rows of the two tables, in insertion order. Every
  statement sent to it may fail for reasons outside the program (a lost connection, a
  constraint of the schema); \<open>faults\<close> lists the outcomes of the statements still to
  come, \<open>None\<close> for success, and a statement past the end of the list succeeds.
  \<open>created\<close> records the batches handed to \<open>Create\<close>, one entry per call, oldest
  first.
\<close>

record GormDB =
  full_sync_meta :: "FullSyncMeta list"
  wait_sync_meta :: "WaitSyncMeta list"
  faults :: "error option list"
  created :: "FullSyncMeta list list"

definition nextOutcome :: "GormDB \<Rightarrow> error option \<times> GormDB" where
  "nextOutcome db =
     (case faults db of [] \<Rightarrow> (None, db) | f # fs \<Rightarrow> (f, db\<lparr>faults := fs\<rparr>))"

text \<open>\<open>Create\<close> of one row or of a slice of rows: one \<open>INSERT\<close> statement.\<close>

definition Create :: "FullSyncMeta list \<Rightarrow> GormDB \<Rightarrow> error option \<times> GormDB" where
  "Create batch db =
     (case nextOutcome (db\<lparr>created := created db @ [batch]\<rparr>) of
        (Some err, db') \<Rightarrow> (Some err, db')
      | (None, db') \<Rightarrow> (None, db'\<lparr>full_sync_meta := full_sync_meta db' @ batch\<rparr>))"

text \<open>\<open>Where(cond).Delete(&FullSyncMeta{})\<close>: one \<open>DELETE\<close> of every row that
  satisfies the condition; deleting no row is not an error.\<close>

definition DeleteWhere :: "(FullSyncMeta \<Rightarrow> bool) \<Rightarrow> GormDB \<Rightarrow> error option \<times> GormDB" where
  "DeleteWhere cond db =
     (case nextOutcome db of
        (Some err, db') \<Rightarrow> (Some err, db')
      | (None, db') \<Rightarrow>
          (None, db'\<lparr>full_sync_meta := filter (\<lambda>r. \<not> cond r) (full_sync_meta db')\<rparr>))"

text \<open>\<open>Model(&WaitSyncMeta{}).Where(cond).Update/Updates\<close>: one \<open>UPDATE\<close> of every row
  that satisfies the condition.\<close>

definition UpdateWhere ::
  "(WaitSyncMeta \<Rightarrow> bool) \<Rightarrow> (WaitSyncMeta \<Rightarrow> WaitSyncMeta) \<Rightarrow> GormDB \<Rightarrow> error option \<times> GormDB" where
  "UpdateWhere cond upd db =
     (case nextOutcome db of
        (Some err, db') \<Rightarrow> (Some err, db')
      | (None, db') \<Rightarrow>
          (None, db'\<lparr>wait_sync_meta := map (\<lambda>w. if cond w then upd w else w) (wait_sync_meta db')\<rparr>))"

text \<open>
  \<open>GormDB.Transaction(fc)\<close>: \<open>BEGIN\<close>, the statements of \<open>fc\<close>, then \<open>COMMIT\<close>. When
  \<open>BEGIN\<close> fails nothing runs; when \<open>fc\<close> returns an error or \<open>COMMIT\<close> fails, the
  transaction is rolled back and both tables are as they were before it.
\<close>

definition Transaction :: "(GormDB \<Rightarrow> error option \<times> GormDB) \<Rightarrow> GormDB \<Rightarrow> error option \<times> GormDB" where
  "Transaction fc db =
     (case nextOutcome db of
        (Some err, db0) \<Rightarrow> (Some err, db0)
      | (None, db0) \<Rightarrow>
          (case fc db0 of
             (Some err, db1) \<Rightarrow>
               (Some err, db1\<lparr>full_sync_meta := full_sync_meta db, wait_sync_meta := wait_sync_meta db\<rparr>)
           | (None, db1) \<Rightarrow>
               (case nextOutcome db1 of
                  (Some err, db2) \<Rightarrow>
                    (Some err, db2\<lparr>full_sync_meta := full_sync_meta db,
                                     wait_sync_meta := wait_sync_meta db\<rparr>)
                | (None, db2) \<Rightarrow> (None, db2))))"

subsection \<open>The Oracle side\<close>

text \<open>
  What \<open>e.OracleDB\<close> answers is an input: the rows of a query and the outcome of a
  PL/SQL block, each a function of the statements executed so far and of the statement's
  text. \<open>executed\<close> is the list of blocks passed to \<open>ExecContext\<close>, oldest first; queries
  change nothing.
\<close>

record OracleDB =
  Query :: "string list \<Rightarrow> string \<Rightarrow> error + row list"
  ExecContext :: "string list \<Rightarrow> string \<Rightarrow> error option"
  executed :: "string list"

record SyncEngine =
  OracleDB :: OracleDB
  GormDB :: GormDB

definition query :: "SyncEngine \<Rightarrow> string \<Rightarrow> error + row list" where
  "query e querySQL = Query (OracleDB e) (executed (OracleDB e)) querySQL"

definition exec :: "SyncEngine \<Rightarrow> string \<Rightarrow> error option \<times> SyncEngine" where
  "exec e sql =
     (ExecContext (OracleDB e) (executed (OracleDB e)) sql,
      e\<lparr>OracleDB := (OracleDB e)\<lparr>executed := executed (OracleDB e) @ [sql]\<rparr>\<rparr>)"

text \<open>Modelled from the spec: \<open>utils.StringsBuilder\<close> is not among the source files. The
  specification's predicate \<open>SELECT * FROM schema.table\<close> and task name
  \<open><schema>_<table>_TASK<worker-id>\<close> are the concatenation of its arguments.\<close>

definition StringsBuilder :: "string list \<Rightarrow> string" where
  "StringsBuilder ss = concat ss"

subsection \<open>Chunk tasks\<close>

definition CloseOracleChunkTask :: "SyncEngine \<Rightarrow> string \<Rightarrow> error option \<times> SyncEngine" where
  "CloseOracleChunkTask e taskName =
     (let clearSQL = StringsBuilder
            [''BEGIN'' @ [CHR 0x0A] @ ''  DBMS_PARALLEL_EXECUTE.DROP_TASK ('' @ [CHR 0x27], taskName,
             [CHR 0x27] @ '');'' @ [CHR 0x0A] @ ''END;'']
      in case exec e clearSQL of
           (Some err, e') \<Rightarrow> (Some (Errorf ''drop task'' err), e')
         | (None, e') \<Rightarrow> (None, e'))"

definition StartOracleChunkCreateTask :: "SyncEngine \<Rightarrow> string \<Rightarrow> error option \<times> SyncEngine" where
  "StartOracleChunkCreateTask e taskName =
     (let querySQL = StringsBuilder
            [''SELECT COUNT(1) COUNT FROM user_parallel_execute_chunks WHERE TASK_NAME='' @ [CHR 0x27],
             taskName, [CHR 0x27]];
          createSQL = StringsBuilder
            [''BEGIN'' @ [CHR 0x0A] @ ''  DBMS_PARALLEL_EXECUTE.CREATE_TASK (task_name => '' @ [CHR 0x27],
             taskName, [CHR 0x27] @ '');'' @ [CHR 0x0A] @ ''END;''];
          create = (\<lambda>e1. case exec e1 createSQL of
                            (Some err, e2) \<Rightarrow> (Some (Errorf ''create task'' err), e2)
                          | (None, e2) \<Rightarrow> (None, e2))
      in case query e querySQL of
           Inl err \<Rightarrow> (Some err, e)
         | Inr res \<Rightarrow>
             (case res of
                [] \<Rightarrow> (Some IndexOutOfRange, e)
              | r0 # rs \<Rightarrow>
                  if row_get r0 ''COUNT'' \<noteq> ''0'' then
                    (case CloseOracleChunkTask e taskName of
                       (Some err, e1) \<Rightarrow> (Some err, e1)
                     | (None, e1) \<Rightarrow> create e1)
                  else create e))"

definition StartOracleCreateChunkByRowID ::
  "SyncEngine \<Rightarrow> string \<Rightarrow> string \<Rightarrow> string \<Rightarrow> string \<Rightarrow> error option \<times> SyncEngine" where
  "StartOracleCreateChunkByRowID e taskName schemaName tableName chunkSize =
     (let chunkSQL = StringsBuilder
            [''BEGIN'' @ [CHR 0x0A]
               @ ''  DBMS_PARALLEL_EXECUTE.CREATE_CHUNKS_BY_ROWID (task_name   => '' @ [CHR 0x27],
             taskName,
             [CHR 0x27] @ '','' @ [CHR 0x0A]
               @ ''                                               table_owner => '' @ [CHR 0x27],
             schemaName,
             [CHR 0x27] @ '','' @ [CHR 0x0A]
               @ ''                                               table_name  => '' @ [CHR 0x27],
             tableName,
             [CHR 0x27] @ '','' @ [CHR 0x0A]
               @ ''                                               by_row      => TRUE,'' @ [CHR 0x0A]
               @ ''                                               chunk_size  => '',
             chunkSize,
             '');'' @ [CHR 0x0A] @ ''END;'']
      in case exec e chunkSQL of
           (Some err, e') \<Rightarrow> (Some (Errorf ''create_chunks_by_rowid'' err), e')
         | (None, e') \<Rightarrow> (None, e'))"

definition getOracleTableRowsByStatistics ::
  "SyncEngine \<Rightarrow> string \<Rightarrow> string \<Rightarrow> error + (int \<times> string)" where
  "getOracleTableRowsByStatistics e schemaName tableName =
     (let querySQL =
            ''select NVL(NUM_ROWS,0) AS NUM_ROWS,PARTITIONED'' @ [CHR 0x0A]
            @ ''  from dba_tables'' @ [CHR 0x0A]
            @ '' where upper(OWNER) = upper('' @ [CHR 0x27] @ schemaName @ [CHR 0x27] @ '')'' @ [CHR 0x0A]
            @ ''   and upper(table_name) = upper('' @ [CHR 0x27] @ tableName @ [CHR 0x27] @ '')''
      in case query e querySQL of
           Inl err \<Rightarrow> Inl err
         | Inr res \<Rightarrow>
             (case res of
                [] \<Rightarrow> Inl IndexOutOfRange
              | r0 # rs \<Rightarrow>
                  (case Atoi (row_get r0 ''NUM_ROWS'') of
                     None \<Rightarrow> Inl (InvalidMetadata ''NUM_ROWS'')
                   | Some numRows \<Rightarrow> Inr (numRows, row_get r0 ''PARTITIONED''))))"

subsection \<open>Planning the chunks of a table\<close>

definition UpdateWaitSyncMetaTableRecord ::
  "SyncEngine \<Rightarrow> string \<Rightarrow> string \<Rightarrow> int \<Rightarrow> int \<Rightarrow> string \<Rightarrow> string \<Rightarrow> error option \<times> SyncEngine" where
  "UpdateWaitSyncMetaTableRecord e schemaName tableName rowCounts globalSCN isPartition syncMode =
     (let rowCounts' = (if rowCounts = 0 then 1 else rowCounts)
      in case UpdateWhere
                (\<lambda>w. WaitSyncMeta.SourceSchemaName w = ToUpper schemaName \<and>
                      WaitSyncMeta.SourceTableName w = ToUpper tableName \<and>
                      SyncMode w = syncMode)
                (\<lambda>w. w\<lparr>FullGlobalSCN := globalSCN, FullSplitTimes := rowCounts',
                         WaitSyncMeta.IsPartition := isPartition\<rparr>)
                (GormDB e) of
           (Some err, g) \<Rightarrow> (Some err, e\<lparr>GormDB := g\<rparr>)
         | (None, g) \<Rightarrow> (None, e\<lparr>GormDB := g\<rparr>))"

text \<open>The inner loop \<open>for _, idx := range ms\<close>: each index appends \<open>fullMetas[idx]\<close> to
  the batch; an index outside the slice panics.\<close>

fun appendByIndex :: "FullSyncMeta list \<Rightarrow> int list \<Rightarrow> FullSyncMeta list \<Rightarrow> FullSyncMeta list option" where
  "appendByIndex fullMetas [] fullMetaBatch = Some fullMetaBatch"
| "appendByIndex fullMetas (idx # ms) fullMetaBatch =
     (if 0 \<le> idx \<and> idx < int (length fullMetas)
      then appendByIndex fullMetas ms (fullMetaBatch @ [fullMetas ! nat idx])
      else None)"

text \<open>The outer loop \<open>for _, ms := range splitMetaIdxSlice\<close>. \<open>fullMetaBatch\<close> is declared
  before the loop and is not emptied between two rounds.\<close>

fun insertBatches ::
  "FullSyncMeta list \<Rightarrow> int list list \<Rightarrow> FullSyncMeta list \<Rightarrow> GormDB \<Rightarrow> error option \<times> GormDB" where
  "insertBatches fullMetas [] fullMetaBatch db = (None, db)"
| "insertBatches fullMetas (ms # rest) fullMetaBatch db =
     (case appendByIndex fullMetas ms fullMetaBatch of
        None \<Rightarrow> (Some IndexOutOfRange, db)
      | Some fullMetaBatch' \<Rightarrow>
          (case Create fullMetaBatch' db of
             (Some err, db') \<Rightarrow> (Some (Errorf ''full_sync_meta'' err), db')
           | (None, db') \<Rightarrow> insertBatches fullMetas rest fullMetaBatch' db'))"

text \<open>The text of \<open>querySQL\<close> in \<open>GetOracleTableChunksByRowID\<close>: one row per chunk of
  the task, its column \<open>CMD\<close> the row-selection statement of the chunk.\<close>

definition chunksQuerySQL :: "string \<Rightarrow> string \<Rightarrow> string \<Rightarrow> string" where
  "chunksQuerySQL taskName schemaName tableName =
     StringsBuilder
       [''SELECT '' @ [CHR 0x27] @ ''SELECT * FROM '', schemaName, ''.'', tableName,
        '' WHERE ROWID BETWEEN '' @ [CHR 0x27, CHR 0x27, CHR 0x27] @ '' || start_rowid || ''
          @ [CHR 0x27, CHR 0x27, CHR 0x27] @ '' AND '' @ [CHR 0x27, CHR 0x27, CHR 0x27]
          @ '' || end_rowid || '' @ [CHR 0x27, CHR 0x27, CHR 0x27, CHR 0x27]
          @ '' CMD FROM user_parallel_execute_chunks WHERE  task_name = '' @ [CHR 0x27],
        taskName, [CHR 0x27] @ '' ORDER BY chunk_id'']"

text \<open>
  \<open>utils.SplitIntSlice\<close> is not among the source files and the specification does not
  describe it; it is the parameter \<open>SplitIntSlice\<close>, any function from the index slice
  and the number of parts to a list of index slices. The quotient
  \<open>len(fullMetas) / insertBatchSize\<close> is Go's integer division: it truncates towards zero
  and panics on a zero divisor.
\<close>

definition GetOracleTableChunksByRowID ::
  "(int list \<Rightarrow> int \<Rightarrow> int list list) \<Rightarrow> SyncEngine \<Rightarrow> string \<Rightarrow> string \<Rightarrow> string \<Rightarrow>
   int \<Rightarrow> int \<Rightarrow> string \<Rightarrow> (error + int) \<times> SyncEngine" where
  "GetOracleTableChunksByRowID SplitIntSlice e taskName schemaName tableName globalSCN
       insertBatchSize isPartition =
     (let querySQL = chunksQuerySQL taskName schemaName tableName
      in case query e querySQL of
           Inl err \<Rightarrow> (Inl err, e)
         | Inr res \<Rightarrow>
             if length res = 0 then
               (case Create
                       [\<lparr>FullSyncMeta.SourceSchemaName = schemaName,
                         FullSyncMeta.SourceTableName = tableName,
                         RowidSQL = StringsBuilder [''SELECT * FROM '', schemaName, ''.'', tableName],
                         FullSyncMeta.IsPartition = isPartition, GlobalSCN = globalSCN\<rparr>]
                       (GormDB e) of
                  (Some err, g) \<Rightarrow> (Inl (Errorf ''full_sync_meta'' err), e\<lparr>GormDB := g\<rparr>)
                | (None, g) \<Rightarrow> (Inr 0, e\<lparr>GormDB := g\<rparr>))
             else
               (let fullMetas =
                      map (\<lambda>r. \<lparr>FullSyncMeta.SourceSchemaName = ToUpper schemaName,
                                 FullSyncMeta.SourceTableName = ToUpper tableName,
                                 RowidSQL = row_get r ''CMD'',
                                 FullSyncMeta.IsPartition = isPartition, GlobalSCN = globalSCN\<rparr>) res;
                    fullMetaIdx = map int [0..<length res]
                in if int (length fullMetas) \<le> insertBatchSize then
                     (case Create fullMetas (GormDB e) of
                        (Some err, g) \<Rightarrow> (Inl (Errorf ''full_sync_meta'' err), e\<lparr>GormDB := g\<rparr>)
                      | (None, g) \<Rightarrow> (Inr (int (length res)), e\<lparr>GormDB := g\<rparr>))
                   else if insertBatchSize = 0 then (Inl DivideByZero, e)
                   else
                     (let splitNums = int (length fullMetas) sdiv insertBatchSize;
                          splitMetaIdxSlice = SplitIntSlice fullMetaIdx splitNums
                      in case insertBatches fullMetas splitMetaIdxSlice [] (GormDB e) of
                           (Some err, g) \<Rightarrow> (Inl err, e\<lparr>GormDB := g\<rparr>)
                         | (None, g) \<Rightarrow> (Inr (int (length res)), e\<lparr>GormDB := g\<rparr>))))"

definition InitWaitAndFullSyncMetaRecord ::
  "(int list \<Rightarrow> int \<Rightarrow> int list list) \<Rightarrow> SyncEngine \<Rightarrow> string \<Rightarrow> string \<Rightarrow>
   int \<Rightarrow> int \<Rightarrow> int \<Rightarrow> int \<Rightarrow> string \<Rightarrow> error option \<times> SyncEngine" where
  "InitWaitAndFullSyncMetaRecord SplitIntSlice e schemaName tableName workerID globalSCN chunkSize
       insertBatchSize syncMode =
     (case getOracleTableRowsByStatistics e schemaName tableName of
        Inl err \<Rightarrow> (Some err, e)
      | Inr (tableRows, isPartition) \<Rightarrow>
          if tableRows = 0 then
            (let sql = StringsBuilder [''SELECT * FROM '', schemaName, ''.'', tableName]
             in case Create
                       [\<lparr>FullSyncMeta.SourceSchemaName = ToUpper schemaName,
                         FullSyncMeta.SourceTableName = ToUpper tableName,
                         RowidSQL = sql, FullSyncMeta.IsPartition = isPartition, GlobalSCN = globalSCN\<rparr>]
                       (GormDB e) of
                  (Some err, g) \<Rightarrow> (Some (Errorf ''full_sync_meta'' err), e\<lparr>GormDB := g\<rparr>)
                | (None, g) \<Rightarrow>
                    UpdateWaitSyncMetaTableRecord (e\<lparr>GormDB := g\<rparr>) schemaName tableName tableRows
                      globalSCN isPartition syncMode)
          else
            (let taskName = StringsBuilder [schemaName, ''_'', tableName, ''_'', ''TASK'', Itoa workerID]
             in case StartOracleChunkCreateTask e taskName of
                  (Some err, e1) \<Rightarrow> (Some err, e1)
                | (None, e1) \<Rightarrow>
             (case StartOracleCreateChunkByRowID e1 taskName (ToUpper schemaName) (ToUpper tableName)
                     (Itoa chunkSize) of
                  (Some err, e2) \<Rightarrow> (Some err, e2)
                | (None, e2) \<Rightarrow>
             (case GetOracleTableChunksByRowID SplitIntSlice e2 taskName (ToUpper schemaName)
                     (ToUpper tableName) globalSCN insertBatchSize isPartition of
                  (Inl err, e3) \<Rightarrow> (Some err, e3)
                | (Inr rowCounts, e3) \<Rightarrow>
             (case UpdateWaitSyncMetaTableRecord e3 schemaName tableName rowCounts globalSCN
                     isPartition syncMode of
                  (Some err, e4) \<Rightarrow> (Some err, e4)
                | (None, e4) \<Rightarrow> CloseOracleChunkTask e4 taskName)))))"

subsection \<open>Completing a chunk\<close>

definition ModifyWaitAndFullSyncTableMetaRecord ::
  "SyncEngine \<Rightarrow> string \<Rightarrow> string \<Rightarrow> string \<Rightarrow> string \<Rightarrow> string \<Rightarrow> error option \<times> SyncEngine" where
  "ModifyWaitAndFullSyncTableMetaRecord e metaSchemaName sourceSchemaName sourceTableName rowidSQL
       syncMode =
     (case Transaction
             (\<lambda>tx. case DeleteWhere
                            (\<lambda>r. FullSyncMeta.SourceSchemaName r = ToUpper sourceSchemaName \<and>
                                  FullSyncMeta.SourceTableName r = ToUpper sourceTableName \<and>
                                  ToUpper (RowidSQL r) = ToUpper rowidSQL)
                            tx of
                      (Some err, tx') \<Rightarrow> (Some (Errorf ''full_sync_meta'' err), tx')
                    | (None, tx') \<Rightarrow>
                        UpdateWhere
                          (\<lambda>w. WaitSyncMeta.SourceSchemaName w = ToUpper sourceSchemaName \<and>
                                WaitSyncMeta.SourceTableName w = ToUpper sourceTableName \<and>
                                SyncMode w = syncMode)
                          (\<lambda>w. w\<lparr>FullSplitTimes := FullSplitTimes w - 1\<rparr>)
                          tx')
             (GormDB e) of
        (Some err, g) \<Rightarrow> (Some err, e\<lparr>GormDB := g\<rparr>)
      | (None, g) \<Rightarrow> (None, e\<lparr>GormDB := g\<rparr>))"

text \<open>The number of \<open>FullSyncMeta\<close> rows of a table, as \<open>JudgingCheckpointResume\<close> compares
  it with \<open>FullSplitTimes\<close>.\<close>

definition fullSyncMetaCount :: "GormDB \<Rightarrow> string \<Rightarrow> string \<Rightarrow> int" where
  "fullSyncMetaCount db schemaName tableName =
     int (length (filter (\<lambda>r. FullSyncMeta.SourceSchemaName r = ToUpper schemaName \<and>
                              FullSyncMeta.SourceTableName r = ToUpper tableName)
                    (full_sync_meta db)))"

subsection \<open>Engines for concrete runs\<close>

text \<open>
  An engine over given Oracle answers and store contents, in which every PL/SQL block
  and every store statement succeeds; the row a table has in \<open>wait_sync_meta\<close> before
  planning, as \<open>InitWaitSyncTableMetaRecord\<close> writes it; and three examples of the
  parameter \<open>SplitIntSlice\<close>: the whole slice as one part, \<open>num\<close> parts of equal length
  with the rest in the last one, and one part per index.
\<close>

definition engineOver ::
  "(string list \<Rightarrow> string \<Rightarrow> error + row list) \<Rightarrow> FullSyncMeta list \<Rightarrow> WaitSyncMeta list \<Rightarrow> SyncEngine" where
  "engineOver answers fs ws =
     \<lparr>OracleDB = \<lparr>Query = answers, ExecContext = (\<lambda>done sql. None), executed = []\<rparr>,
      GormDB = \<lparr>full_sync_meta = fs, wait_sync_meta = ws, faults = [], created = []\<rparr>\<rparr>"

definition waiting :: "string \<Rightarrow> string \<Rightarrow> string \<Rightarrow> int \<Rightarrow> int \<Rightarrow> WaitSyncMeta" where
  "waiting schemaName tableName syncMode scn splitTimes =
     \<lparr>WaitSyncMeta.SourceSchemaName = schemaName, WaitSyncMeta.SourceTableName = tableName,
      SyncMode = syncMode, FullGlobalSCN = scn, FullSplitTimes = splitTimes,
      WaitSyncMeta.IsPartition = []\<rparr>"

definition chunkOf :: "string \<Rightarrow> string \<Rightarrow> string \<Rightarrow> FullSyncMeta" where
  "chunkOf schemaName tableName rowidSQL =
     \<lparr>FullSyncMeta.SourceSchemaName = schemaName, FullSyncMeta.SourceTableName = tableName,
      RowidSQL = rowidSQL, FullSyncMeta.IsPartition = ''NO'', GlobalSCN = 100\<rparr>"

definition statisticsRow :: "string \<Rightarrow> string \<Rightarrow> row" where
  "statisticsRow numRows partitioned = [''NUM_ROWS'' \<mapsto> numRows, ''PARTITIONED'' \<mapsto> partitioned]"

definition chunkRow :: "string \<Rightarrow> row" where
  "chunkRow cmd = [''CMD'' \<mapsto> cmd]"

definition onePart :: "int list \<Rightarrow> int \<Rightarrow> int list list" where
  "onePart arr num = [arr]"

fun evenParts :: "nat \<Rightarrow> nat \<Rightarrow> int list \<Rightarrow> int list list" where
  "evenParts n quantity arr =
     (if n \<le> 1 then [arr]
      else take quantity arr # evenParts (n - 1) quantity (drop quantity arr))"

declare evenParts.simps [simp del]

definition equalParts :: "int list \<Rightarrow> int \<Rightarrow> int list list" where
  "equalParts arr num =
     (if num \<le> 0 then [arr] else evenParts (nat num) (length arr div nat num) arr)"

section \<open>Table assembly (pkg/reverse/o2m/table.go)\<close>

subsection \<open>What the file uses of code outside the source files\<close>

text \<open>
  \<open>GenCreateTableSQL\<close> reads constants and one table of package \<open>utils\<close>, calls the
  column mapper of its own package (a \<open>ReverseOracleTableColumnMapRule\<close> with a
  collation argument, one more than the function of \<open>pkg/reverser\<close>), and asks
  \<open>fastjson\<close> two questions about the TiDB configuration text. None of them is among the
  source files; they are the fields of \<open>Deps\<close>, parameters of the model:
  \<^item> \<open>OracleCollationMap\<close>: the fixed Oracle-to-MySQL collation table;
  \<^item> \<open>MapColumn schema table rowCol collation\<close>: the column meta of a catalog row;
  \<^item> \<open>AlterPrimaryKeyExists\<close>: \<open>fastjson.Exists(pkVal, "alter-primary-key")\<close>;
  \<^item> \<open>AlterPrimaryKey\<close>: \<open>Parse(pkVal)\<close>, then \<open>GetBool("alter-primary-key")\<close>.
\<close>

record Deps =
  OracleCollationMap :: "string \<rightharpoonup> string"
  MySQLCharacterSet :: string
  MySQLTargetDBType :: string
  TiDBClusteredIndexOFFValue :: string
  TiDBClusteredIndexONValue :: string
  TiDBIntegerPrimaryKeyList :: "string list"
  MapColumn :: "string \<Rightarrow> string \<Rightarrow> row \<Rightarrow> string \<Rightarrow> error + string"
  AlterPrimaryKeyExists :: "string \<Rightarrow> bool"
  AlterPrimaryKey :: "string \<Rightarrow> error + bool"

subsection \<open>Unique keys and indexes\<close>

definition quotedColumns :: "string \<Rightarrow> string list" where
  "quotedColumns columnList = map (\<lambda>col. ''`'' @ col @ ''`'') (Split columnList (CHR '',''))"

definition reverserOracleTableUKToMySQL :: "Table \<Rightarrow> error + string list" where
  "reverserOracleTableUKToMySQL t =
     (case GetOracleTableUniqueKey (Engine t) (Table.SourceSchemaName t) (Table.SourceTableName t) of
        Inl err \<Rightarrow> Inl err
      | Inr uniqueKeyMap \<Rightarrow>
          Inr (map (\<lambda>rowUKCol.
                      ''UNIQUE KEY `'' @ ToUpper (row_get rowUKCol ''CONSTRAINT_NAME'') @ ''` (''
                        @ ToUpper (Join (quotedColumns (row_get rowUKCol ''COLUMN_LIST'')) '','')
                        @ '')'')
                 uniqueKeyMap))"

definition GenCreateUKSQL :: "Table \<Rightarrow> error + string list" where
  "GenCreateUKSQL t = reverserOracleTableUKToMySQL t"

text \<open>The loop over the non-unique indexes: \<open>keyINFO\<close> collects the inline \<open>KEY\<close>
  fragments, \<open>compatibilityIndexSQL\<close> the statements kept for the compatibility list;
  a row that is not a non-unique index of a table, or whose type is unknown, ends the
  loop with an error.\<close>

fun normalIndexRows ::
  "Table \<Rightarrow> string \<Rightarrow> row list \<Rightarrow> string list \<Rightarrow> string list \<Rightarrow> error + (string list \<times> string list)" where
  "normalIndexRows t modifyTableName [] keyINFO compatibilityIndexSQL =
     Inr (keyINFO, compatibilityIndexSQL)"
| "normalIndexRows t modifyTableName (idxMeta # rest) keyINFO compatibilityIndexSQL =
     (if row_get idxMeta ''TABLE_NAME'' \<noteq> [] \<and> ToUpper (row_get idxMeta ''UNIQUENESS'') = ''NONUNIQUE''
      then
        (let indexType = row_get idxMeta ''INDEX_TYPE'';
             name = ToUpper (row_get idxMeta ''INDEX_NAME'');
             onTable = TargetSchemaName t @ ''.'' @ modifyTableName
                       @ '' ('' @ row_get idxMeta ''COLUMN_LIST'' @ '')''
         in if indexType = ''NORMAL'' then
              normalIndexRows t modifyTableName rest
                (keyINFO @ [''KEY `'' @ name @ ''` (''
                             @ Join (quotedColumns (row_get idxMeta ''COLUMN_LIST'')) '','' @ '')''])
                compatibilityIndexSQL
            else if indexType = ''FUNCTION-BASED NORMAL'' then
              normalIndexRows t modifyTableName rest keyINFO
                (compatibilityIndexSQL @ [''CREATE INDEX '' @ name @ '' ON '' @ onTable @ '';''])
            else if indexType = ''BITMAP'' then
              normalIndexRows t modifyTableName rest keyINFO
                (compatibilityIndexSQL @ [''CREATE BITMAP INDEX '' @ name @ '' ON '' @ onTable @ '';''])
            else if indexType = ''FUNCTION-BASED BITMAP'' then
              normalIndexRows t modifyTableName rest keyINFO
                (compatibilityIndexSQL @ [''CREATE BITMAP INDEX '' @ name @ '' ON '' @ onTable @ '';''])
            else if indexType = ''DOMAIN'' then
              normalIndexRows t modifyTableName rest keyINFO
                (compatibilityIndexSQL @
                 [''CREATE INDEX '' @ name @ '' ON '' @ onTable @ '' INDEXTYPE IS ''
                    @ ToUpper (row_get idxMeta ''ITYP_OWNER'') @ ''.''
                    @ ToUpper (row_get idxMeta ''ITYP_NAME'')
                    @ '' PARAMETERS ('' @ [CHR 0x27] @ row_get idxMeta ''PARAMETERS'' @ [CHR 0x27]
                    @ '');''])
            else Inl UnsupportedIndex)
      else Inl UnsupportedIndex)"

definition reverserOracleTableNormalIndexToMySQL ::
  "Table \<Rightarrow> string \<Rightarrow> error + (string list \<times> string list)" where
  "reverserOracleTableNormalIndexToMySQL t modifyTableName =
     (case GetOracleTableNormalIndex (Engine t) (Table.SourceSchemaName t) (Table.SourceTableName t) of
        Inl err \<Rightarrow> Inl err
      | Inr indexesMap \<Rightarrow> normalIndexRows t modifyTableName indexesMap [] [])"

definition GenCreateNonUniqueIndex :: "Table \<Rightarrow> string \<Rightarrow> error + (string list \<times> string list)" where
  "GenCreateNonUniqueIndex t modifyTableName = reverserOracleTableNormalIndexToMySQL t modifyTableName"

fun uniqueIndexRows ::
  "Table \<Rightarrow> string \<Rightarrow> row list \<Rightarrow> string list \<Rightarrow> string list \<Rightarrow> error + (string list \<times> string list)" where
  "uniqueIndexRows t modifyTableName [] uniqueINFO compatibilityIndexSQL =
     Inr (uniqueINFO, compatibilityIndexSQL)"
| "uniqueIndexRows t modifyTableName (idxMeta # rest) uniqueINFO compatibilityIndexSQL =
     (if row_get idxMeta ''TABLE_NAME'' \<noteq> [] \<and> ToUpper (row_get idxMeta ''UNIQUENESS'') = ''UNIQUE''
      then
        (let indexType = row_get idxMeta ''INDEX_TYPE'';
             name = ToUpper (row_get idxMeta ''INDEX_NAME'')
         in if indexType = ''NORMAL'' then
              uniqueIndexRows t modifyTableName rest
                (uniqueINFO @ [''UNIQUE INDEX `'' @ name @ ''` (''
                                @ Join (quotedColumns (row_get idxMeta ''COLUMN_LIST'')) '','' @ '')''])
                compatibilityIndexSQL
            else if indexType = ''FUNCTION-BASED NORMAL'' then
              uniqueIndexRows t modifyTableName rest uniqueINFO
                (compatibilityIndexSQL @
                 [''CREATE UNIQUE INDEX `'' @ name @ ''` ON `'' @ TargetSchemaName t @ ''`.`''
                    @ modifyTableName @ ''` ('' @ row_get idxMeta ''COLUMN_LIST'' @ '');''])
            else Inl UnsupportedIndex)
      else Inl UnsupportedIndex)"

definition reverserOracleTableUniqueIndexToMySQL ::
  "Table \<Rightarrow> string \<Rightarrow> error + (string list \<times> string list)" where
  "reverserOracleTableUniqueIndexToMySQL t modifyTableName =
     (case GetOracleTableUniqueIndex (Engine t) (Table.SourceSchemaName t) (Table.SourceTableName t) of
        Inl err \<Rightarrow> Inl err
      | Inr indexesMap \<Rightarrow> uniqueIndexRows t modifyTableName indexesMap [] [])"

definition GenCreateUniqueIndex :: "Table \<Rightarrow> string \<Rightarrow> error + (string list \<times> string list)" where
  "GenCreateUniqueIndex t modifyTableName = reverserOracleTableUniqueIndexToMySQL t modifyTableName"

subsection \<open>Columns\<close>

text \<open>
  The loop over the catalog's column rows. With a single-column primary key
  (\<open>single\<close>), the row of that column also decides \<open>singlePKColumnTypeIsInteger\<close>: the
  second field of its column meta is compared with the integer type names, and a column
  meta of fewer than two fields panics at \<open>strings.Fields(columnMeta)[1]\<close>.
\<close>

fun columnRows ::
  "Deps \<Rightarrow> Table \<Rightarrow> bool \<Rightarrow> bool \<Rightarrow> string list \<Rightarrow> row list \<Rightarrow> string list \<Rightarrow> bool \<Rightarrow>
   error + (string list \<times> bool)" where
  "columnRows deps t oraCollation single pkColumnName [] columnMetas singlePKColumnTypeIsInteger =
     Inr (columnMetas, singlePKColumnTypeIsInteger)"
| "columnRows deps t oraCollation single pkColumnName (rowCol # rest) columnMetas
       singlePKColumnTypeIsInteger =
     (case MapColumn deps (Table.SourceSchemaName t) (Table.SourceTableName t) rowCol
             (if oraCollation then row_get rowCol ''COLLATION'' else []) of
        Inl err \<Rightarrow> Inl err
      | Inr columnMeta \<Rightarrow>
          if single \<and>
             ToUpper (pkColumnName ! 0)
               = StringsBuilder [''`'', ToUpper (row_get rowCol ''COLUMN_NAME''), ''`'']
          then
            (if length (Fields columnMeta) < 2 then Inl IndexOutOfRange
             else
               (let columnType = Fields columnMeta ! 1;
                    found = list_ex (\<lambda>integerType. Contains (ToUpper columnType) (ToUpper integerType))
                              (TiDBIntegerPrimaryKeyList deps)
                in columnRows deps t oraCollation single pkColumnName rest
                     (columnMetas @ [columnMeta]) (found \<or> singlePKColumnTypeIsInteger)))
          else columnRows deps t oraCollation single pkColumnName rest
                 (columnMetas @ [columnMeta]) singlePKColumnTypeIsInteger)"

definition reverserOracleTableColumnToMySQL ::
  "Deps \<Rightarrow> Table \<Rightarrow> bool \<Rightarrow> string list \<Rightarrow> error + (string list \<times> bool)" where
  "reverserOracleTableColumnToMySQL deps t oraCollation pkColumnName =
     (case GetOracleTableColumn (Engine t) (Table.SourceSchemaName t) (Table.SourceTableName t)
             oraCollation of
        Inl err \<Rightarrow> Inl err
      | Inr columnsMap \<Rightarrow>
          columnRows deps t oraCollation (length pkColumnName = 1) pkColumnName columnsMap [] False)"

subsection \<open>Collation and the statement\<close>

text \<open>
  The first block of \<open>GenCreateTableSQL\<close> (lines 61 to 89), which sets \<open>tableCollation\<close> or
  returns: three \<open>if\<close> statements in a row when the source has table and column
  collations, one map read otherwise. The third \<open>if\<close> tests \<open>t.SourceTableName\<close>.
\<close>

definition tableCollationOf :: "Deps \<Rightarrow> Table \<Rightarrow> error + string" where
  "tableCollationOf deps t =
     (if OracleCollation t then
        (case (if SourceTableCollation t \<noteq> [] then
                 (case OracleCollationMap deps (SourceTableCollation t) of
                    Some val \<Rightarrow> Inr val
                  | None \<Rightarrow> Inl (UnsupportedCollation (SourceTableCollation t)))
               else Inr []) of
           Inl err \<Rightarrow> Inl err
         | Inr tableCollation1 \<Rightarrow>
        (case (if SourceTableCollation t = [] \<and> SourceSchemaCollation t \<noteq> [] then
                 (case OracleCollationMap deps (SourceSchemaCollation t) of
                    Some val \<Rightarrow> Inr val
                  | None \<Rightarrow> Inl (UnsupportedCollation (SourceSchemaCollation t)))
               else Inr tableCollation1) of
           Inl err \<Rightarrow> Inl err
         | Inr tableCollation2 \<Rightarrow>
             if Table.SourceTableName t = [] \<and> SourceSchemaCollation t = []
             then Inl (UnsupportedCollation (SourceSchemaCollation t))
             else Inr tableCollation2))
      else
        (case OracleCollationMap deps (SourceDBNLSComp t) of
           Some val \<Rightarrow> Inr val
         | None \<Rightarrow> Inl (UnsupportedCollation (SourceDBNLSComp t))))"

text \<open>The four shapes of the statement: with table option and comment, with the option,
  plain, and with the comment.\<close>

definition createTableHead :: "Deps \<Rightarrow> Table \<Rightarrow> string \<Rightarrow> string \<Rightarrow> string \<Rightarrow> string" where
  "createTableHead deps t modifyTableName tableMeta tableCollation =
     ''CREATE TABLE `'' @ TargetSchemaName t @ ''`.`'' @ modifyTableName @ ''` ('' @ [CHR 0x0A]
       @ tableMeta @ [CHR 0x0A] @ '') ENGINE=InnoDB DEFAULT CHARSET=''
       @ ToLower (MySQLCharacterSet deps) @ '' COLLATE='' @ tableCollation"

definition createWithOptionAndComment :: "string \<Rightarrow> string \<Rightarrow> string \<Rightarrow> string" where
  "createWithOptionAndComment head' option' tableComment =
     head' @ '' '' @ ToUpper option' @ '' COMMENT='' @ [CHR 0x27] @ tableComment @ [CHR 0x27] @ '';''"

definition createWithOption :: "string \<Rightarrow> string \<Rightarrow> string" where
  "createWithOption head' option' = head' @ '' '' @ ToUpper option' @ '';''"

definition createPlain :: "string \<Rightarrow> string" where
  "createPlain head' = head' @ '';''"

definition createWithComment :: "string \<Rightarrow> string \<Rightarrow> string" where
  "createWithComment head' tableComment =
     head' @ '' COMMENT='' @ [CHR 0x27] @ tableComment @ [CHR 0x27] @ '';''"

definition createOptionEnabled :: "string \<Rightarrow> string \<Rightarrow> string \<Rightarrow> string" where
  "createOptionEnabled head' option' tableComment =
     (if tableComment \<noteq> [] \<and> option' \<noteq> [] then createWithOptionAndComment head' option' tableComment
      else if tableComment = [] \<and> option' \<noteq> [] then createWithOption head' option'
      else if tableComment = [] \<and> option' = [] then createPlain head'
      else createWithComment head' tableComment)"

definition createOptionDisabled :: "string \<Rightarrow> string \<Rightarrow> string" where
  "createOptionDisabled head' tableComment =
     (if tableComment \<noteq> [] then createWithComment head' tableComment else createPlain head')"

definition GenCreateTableSQL :: "Deps \<Rightarrow> Table \<Rightarrow> string \<Rightarrow> error + (string \<times> string list)" where
  "GenCreateTableSQL deps t modifyTableName =
     (case tableCollationOf deps t of
        Inl err \<Rightarrow> Inl err
      | Inr tableCollation \<Rightarrow>
     (case GenCreateUKSQL t of
        Inl err \<Rightarrow> Inl (Errorf ''unique constraint'' err)
      | Inr ukINFO \<Rightarrow>
     (case GenCreateNonUniqueIndex t modifyTableName of
        Inl err \<Rightarrow> Inl (Errorf ''key non-unique index'' err)
      | Inr (indexINFO, compNonUniqueIndex) \<Rightarrow>
     (case GenCreateUniqueIndex t modifyTableName of
        Inl err \<Rightarrow> Inl (Errorf ''key unique index'' err)
      | Inr (uniqueIndexINFO, compUniqueIndex) \<Rightarrow>
     (let compIndexINFO = compNonUniqueIndex @ compUniqueIndex
      in case reverserOracleTablePKToMySQL t of
        Inl err \<Rightarrow> Inl err
      | Inr (pkMeta, pkINFO) \<Rightarrow>
     (case reverserOracleTableColumnToMySQL deps t (OracleCollation t) pkINFO of
        Inl err \<Rightarrow> Inl err
      | Inr (columnMetaSlice, singlePKColumnTypeIsInteger) \<Rightarrow>
     (case GetOracleTableComment (Engine t) (Table.SourceSchemaName t) (Table.SourceTableName t) of
        Inl err \<Rightarrow> Inl err
      | Inr tablesMap \<Rightarrow>
     (case tablesMap of
        [] \<Rightarrow> Inl IndexOutOfRange
      | firstRow # otherRows \<Rightarrow>
     (let tableComment = row_get firstRow ''COMMENTS'';
          tableMetas = columnMetaSlice @ pkMeta @ ukINFO @ indexINFO @ uniqueIndexINFO;
          tableMeta = Join tableMetas ('','' @ [CHR 0x0A]);
          head' = createTableHead deps t modifyTableName tableMeta tableCollation
      in if TargetDBType t = MySQLTargetDBType deps \<or> TargetTableOption t = [] then
           Inr (createOptionDisabled head' tableComment, compIndexINFO)
         else
           (case GetTiDBClusteredIndexValue (Engine t) of
              Inl err \<Rightarrow> Inl err
            | Inr clusteredIdxVal \<Rightarrow>
                if ToUpper clusteredIdxVal = TiDBClusteredIndexOFFValue deps then
                  Inr (createOptionEnabled head' (TargetTableOption t) tableComment, compIndexINFO)
                else if ToUpper clusteredIdxVal = TiDBClusteredIndexONValue deps then
                  Inr (createOptionDisabled head' tableComment, compIndexINFO)
                else
                  (case GetTiDBAlterPKValue (Engine t) of
                     Inl err \<Rightarrow> Inl err
                   | Inr pkVal \<Rightarrow>
                       if \<not> AlterPrimaryKeyExists deps pkVal then
                         Inr (createOptionDisabled head' tableComment, compIndexINFO)
                       else
                         (case AlterPrimaryKey deps pkVal of
                            Inl err \<Rightarrow> Inl err
                          | Inr isAlterPK \<Rightarrow>
                              if \<not> isAlterPK \<and> length pkINFO = 1 \<and> singlePKColumnTypeIsInteger then
                                Inr (createOptionDisabled head' tableComment, compIndexINFO)
                              else if isAlterPK \<or> (\<not> isAlterPK \<and> length pkINFO > 1)
                                      \<or> (\<not> isAlterPK \<and> \<not> singlePKColumnTypeIsInteger) then
                                Inr (createOptionEnabled head' (TargetTableOption t) tableComment,
                                     compIndexINFO)
                              else Inl UnsupportedTableOption))))))))))))"

subsection \<open>A plan for a concrete run\<close>

text \<open>The constants as the target dialect names them, a collation table with two entries,
  a column mapper that returns the column's name and \<open>INT\<close>, and a catalog with one
  column \<open>ID\<close> and an empty table comment.\<close>

definition depsExample :: Deps where
  "depsExample =
     \<lparr>OracleCollationMap = [''BINARY'' \<mapsto> ''utf8mb4_bin'', ''BINARY_CI'' \<mapsto> ''utf8mb4_general_ci''],
      MySQLCharacterSet = ''UTF8MB4'', MySQLTargetDBType = ''MYSQL'',
      TiDBClusteredIndexOFFValue = ''OFF'', TiDBClusteredIndexONValue = ''ON'',
      TiDBIntegerPrimaryKeyList = [''TINYINT'', ''SMALLINT'', ''INT'', ''BIGINT''],
      MapColumn = (\<lambda>schema table rowCol collation.
                     Inr (''`'' @ row_get rowCol ''COLUMN_NAME'' @ ''` INT'')),
      AlterPrimaryKeyExists = (\<lambda>pkVal. False),
      AlterPrimaryKey = (\<lambda>pkVal. Inr False)\<rparr>"

definition oneColumnCatalog :: CatalogEngine where
  "oneColumnCatalog =
     emptyCatalog\<lparr>GetOracleTableColumn := (\<lambda>s t c. Inr [[''COLUMN_NAME'' \<mapsto> ''ID'']]),
                  GetOracleTableComment := (\<lambda>s t. Inr [[''COMMENTS'' \<mapsto> []]])\<rparr>"

section \<open>Properties of the string functions\<close>

lemmas upper_eval = ToUpper_def upper_char_def lower_letters_def upper_letters_def

lemma upper_char_other: "c \<notin> set lower_letters \<Longrightarrow> upper_char c = c"
proof -
  assume "c \<notin> set lower_letters"
  moreover have "length lower_letters = length upper_letters"
    by (simp add: lower_letters_def upper_letters_def)
  ultimately have "map_of (zip lower_letters upper_letters) c = None"
    by simp
  then show ?thesis by (simp add: upper_char_def)
qed

lemma digit_char_in: "d < 10 \<Longrightarrow> digit_char d \<in> set ''0123456789''"
  unfolding digit_char_def by (rule nth_mem) simp

lemma digits_chars: "set (digits n) \<subseteq> set ''0123456789''"
proof (induction n rule: digits.induct)
  case (1 n)
  show ?case
  proof (cases "n < 10")
    case True
    then show ?thesis using digit_char_in [of n] by (subst digits.simps) simp
  next
    case False
    have "n mod 10 < 10" by simp
    then have "digit_char (n mod 10) \<in> set ''0123456789''" by (rule digit_char_in)
    with False 1 show ?thesis by (subst digits.simps) simp
  qed
qed

lemma ToUpper_fixed: "set s \<inter> set lower_letters = {} \<Longrightarrow> ToUpper s = s"
  unfolding ToUpper_def by (rule map_idI) (auto intro: upper_char_other)

lemma ToUpper_digits: "ToUpper (digits n) = digits n"
proof (rule ToUpper_fixed)
  have "set ''0123456789'' \<inter> set lower_letters = {}" by (simp add: lower_letters_def)
  with digits_chars [of n] show "set (digits n) \<inter> set lower_letters = {}" by blast
qed

lemma ToUpper_append: "ToUpper (a @ b) = ToUpper a @ ToUpper b"
  by (simp add: ToUpper_def)

lemma ToUpper_Cons: "ToUpper (c # s) = upper_char c # ToUpper s"
  by (simp add: ToUpper_def)

lemma ToUpper_Itoa: "ToUpper (Itoa i) = Itoa i"
  using ToUpper_digits by (simp add: Itoa_def ToUpper_Cons upper_char_def lower_letters_def upper_letters_def)


lemma ToUpper_Nil: "ToUpper [] = []"
  by (simp add: ToUpper_def)

lemmas ToUpper_lit = ToUpper_Nil ToUpper_Cons ToUpper_append upper_char_def lower_letters_def upper_letters_def

lemma ReplaceAll_char: "ReplaceAll s old [new] = map (\<lambda>c. if c = old then new else c) s"
  by (induction s) (simp_all add: ReplaceAll_def)

lemma Contains_single: "Contains s [c] \<longleftrightarrow> c \<in> set s"
  by (induction s) auto

lemma ToUpper_Join: "ToUpper (Join xs sep) = Join (map ToUpper xs) (ToUpper sep)"
  by (induction xs sep rule: Join.induct) (simp_all add: ToUpper_Nil ToUpper_append)

section \<open>Properties of the type mapper\<close>

subsection \<open>Columns without an override\<close>

lemma find_None_list_ex: "\<not> list_ex P xs \<Longrightarrow> find P xs = None"
  by (simp add: find_None_iff list_ex_iff)

lemma noTypeOverride_loads:
  assumes "noTypeOverride columnName origin cs ts ss"
  shows "loadDataTypeRuleOnlyUsingColumn columnName origin b cs = b"
    and "loadDataTypeRuleUsingTableOrSchema origin b ts ss = b"
proof -
  from assms show "loadDataTypeRuleOnlyUsingColumn columnName origin b cs = b"
    by (simp add: noTypeOverride_def loadDataTypeRuleOnlyUsingColumn_def find_None_list_ex)
  from assms have t: "loadDataTypeRuleOnlyUsingTable origin b ts = b"
    by (simp add: noTypeOverride_def loadDataTypeRuleOnlyUsingTable_def find_None_list_ex)
  from assms have s: "loadDataTypeRuleOnlyUsingSchema origin b ss = b"
    by (simp add: noTypeOverride_def loadDataTypeRuleOnlyUsingSchema_def find_None_list_ex)
  show "loadDataTypeRuleUsingTableOrSchema origin b ts ss = b"
    by (simp add: loadDataTypeRuleUsingTableOrSchema_def loadDataTypeRuleUsingTableAndSchema_def t s)
qed

lemma noTypeOverride_change:
  assumes "noTypeOverride columnName origin cs ts ss" and "ToUpper b = b"
  shows "changeOracleTableColumnType columnName origin b cs ts ss = b"
  using assms(2) noTypeOverride_loads [OF assms(1), of b]
  by (simp add: changeOracleTableColumnType_def)

lemma columnTypes_number_zero:
  "ToUpper dataType = ''NUMBER'' \<Longrightarrow> snd (columnTypes dataType l p 0) = numberTarget p"
  by (simp add: columnTypes_def numberTarget_def)

lemma ToUpper_numberTarget: "ToUpper (numberTarget p) = numberTarget p"
  by (simp add: numberTarget_def ToUpper_lit ToUpper_Itoa)

lemma generateOracleTableColumnMeta_prefix:
  "prefix (''`'' @ columnName @ ''` '' @ columnType)
     (generateOracleTableColumnMeta columnName columnType dataNullable comments defaultValue dvs)"
  by (simp add: generateOracleTableColumnMeta_def Let_def)

text \<open>
  Claim C1. An Oracle column of type \<open>NUMBER\<close> with scale 0 whose rule store holds no
  override for it gets the built-in target of its precision \<open>p\<close>: \<open>DECIMAL(65,30)\<close> for
  \<open>p = 0\<close>, \<open>TINYINT\<close> for \<open>1 \<le> p < 3\<close>, \<open>SMALLINT\<close> for \<open>3 \<le> p < 5\<close>, \<open>INT\<close>
  for \<open>5 \<le> p < 9\<close>, \<open>BIGINT\<close> for \<open>9 \<le> p < 19\<close>, \<open>DECIMAL(p)\<close> for
  \<open>19 \<le> p \<le> 38\<close> and \<open>DECIMAL(p,4)\<close> for every other \<open>p\<close>; the column meta that
  \<open>ReverseOracleTableColumnMapRule\<close> returns is assembled around that type. The
  column name, the default value and the folded strings of the rule store are ASCII;
  the type name is, as it upper-cases to \<open>NUMBER\<close>. At the
  precisions 1, 2, 3, 4, 5, 8, 9, 18, 19, 38 and 39 the built-in types are \<open>TINYINT\<close>,
  \<open>TINYINT\<close>, \<open>SMALLINT\<close>, \<open>SMALLINT\<close>, \<open>INT\<close>, \<open>INT\<close>, \<open>BIGINT\<close>, \<open>BIGINT\<close>,
  \<open>DECIMAL(19)\<close>, \<open>DECIMAL(38)\<close> and \<open>DECIMAL(39,4)\<close>.
\<close>

theorem number_scale_zero_builtin:
  assumes "ToUpper dataType = ''NUMBER''"
    and "Atoi dataLengthValue = Some l"
    and "Atoi dataPrecisionValue = Some p"
    and "Atoi dataScaleValue = Some 0"
    and "GetColumnRuleMap engine sourceSchema sourceTableName = Inr cs"
    and "GetTableRuleMap engine sourceSchema sourceTableName = Inr ts"
    and "GetSchemaRuleMap engine sourceSchema = Inr ss"
    and "GetDefaultValueMap engine = Inr dvs"
    and "noTypeOverride columnName (fst (columnTypes dataType l p 0)) cs ts ss"
    and "isASCII columnName"
    and "isASCII dataDefault"
    and "asciiRules cs ts ss dvs"
  shows "ReverseOracleTableColumnMapRule sourceSchema sourceTableName columnName dataType
           dataNullable comments dataDefault dataScaleValue dataPrecisionValue dataLengthValue engine
         = Inr (generateOracleTableColumnMeta columnName
                  (if p = 0 then ''DECIMAL(65,30)''
                   else if 1 \<le> p \<and> p < 3 then ''TINYINT''
                   else if 3 \<le> p \<and> p < 5 then ''SMALLINT''
                   else if 5 \<le> p \<and> p < 9 then ''INT''
                   else if 9 \<le> p \<and> p < 19 then ''BIGINT''
                   else if 19 \<le> p \<and> p \<le> 38 then ''DECIMAL('' @ Itoa p @ '')''
                   else ''DECIMAL('' @ Itoa p @ '',4)'')
                  dataNullable comments dataDefault dvs)
       \<and> map (\<lambda>q. snd (columnTypes dataType l q 0)) [1, 2, 3, 4, 5, 8, 9, 18, 19, 38, 39]
         = [''TINYINT'', ''TINYINT'', ''SMALLINT'', ''SMALLINT'', ''INT'', ''INT'', ''BIGINT'',
            ''BIGINT'', ''DECIMAL(19)'', ''DECIMAL(38)'', ''DECIMAL(39,4)'']"
proof
  obtain origin where ct: "columnTypes dataType l p 0 = (origin, numberTarget p)"
    using columnTypes_number_zero [OF assms(1), of l p] by (cases "columnTypes dataType l p 0") simp
  with assms(9) have "noTypeOverride columnName origin cs ts ss" by simp
  then have "changeOracleTableColumnType columnName origin (numberTarget p) cs ts ss = numberTarget p"
    by (rule noTypeOverride_change) (rule ToUpper_numberTarget)
  with assms(2-8) ct show "ReverseOracleTableColumnMapRule sourceSchema sourceTableName columnName dataType
           dataNullable comments dataDefault dataScaleValue dataPrecisionValue dataLengthValue engine
         = Inr (generateOracleTableColumnMeta columnName
                  (if p = 0 then ''DECIMAL(65,30)''
                   else if 1 \<le> p \<and> p < 3 then ''TINYINT''
                   else if 3 \<le> p \<and> p < 5 then ''SMALLINT''
                   else if 5 \<le> p \<and> p < 9 then ''INT''
                   else if 9 \<le> p \<and> p < 19 then ''BIGINT''
                   else if 19 \<le> p \<and> p \<le> 38 then ''DECIMAL('' @ Itoa p @ '')''
                   else ''DECIMAL('' @ Itoa p @ '',4)'')
                  dataNullable comments dataDefault dvs)"
    by (simp add: ReverseOracleTableColumnMapRule_def numberTarget_def)
next
  show "map (\<lambda>q. snd (columnTypes dataType l q 0)) [1, 2, 3, 4, 5, 8, 9, 18, 19, 38, 39]
         = [''TINYINT'', ''TINYINT'', ''SMALLINT'', ''SMALLINT'', ''INT'', ''INT'', ''BIGINT'',
            ''BIGINT'', ''DECIMAL(19)'', ''DECIMAL(38)'', ''DECIMAL(39,4)'']"
    using assms(1) by (simp add: columnTypes_def Itoa_def digits.simps digit_char_def)
qed

text \<open>The theorem at a column \<open>ID\<close> of type \<open>NUMBER(7)\<close> in a rule store whose rules
  all miss it.\<close>

theorem number_scale_zero_builtin_witness:
  "ReverseOracleTableColumnMapRule ''MARVIN'' ''T1'' ''ID'' ''number'' ''N'' [] [] ''0'' ''7'' ''22'' missingRules
     = Inr ''`ID` INT NOT NULL''"
proof -
  have c: "columnTypes ''number'' 22 7 0 = (''NUMBER(7)'', ''INT'')"
    by (simp add: columnTypes_def upper_eval Itoa_def digits.simps digit_char_def)
  have n: "noTypeOverride ''ID'' (fst (columnTypes ''number'' 22 7 0))
             [\<lparr>SourceColumnName = ''NAME'', SourceColumnType = ''NUMBER(7)'', TargetColumnType = ''BIGINT''\<rparr>]
             [\<lparr>TableRuleMap.SourceColumnType = ''NUMBER(7)'', TargetColumnType = []\<rparr>]
             [\<lparr>SchemaRuleMap.SourceColumnType = ''DATE'', TargetColumnType = ''TIMESTAMP''\<rparr>]"
    by (simp add: c noTypeOverride_def upper_eval)
  have a: "Atoi ''22'' = Some 22" "Atoi ''7'' = Some 7" "Atoi ''0'' = Some 0"
    by (simp_all add: Atoi_def isDigit_def digits_val_def digit_val_def)
  have u: "ToUpper ''number'' = ''NUMBER''" by (simp add: upper_eval)
  show ?thesis
    using number_scale_zero_builtin [where dataNullable = "''N''" and comments = "[]"
        and dataDefault = "[]" and engine = missingRules and sourceSchema = "''MARVIN''"
        and sourceTableName = "''T1''", OF u a _ _ _ _ n]
    by (simp add: missingRules_def generateOracleTableColumnMeta_def asciiRules_def isASCII_def)
qed

subsection \<open>Override precedence\<close>

lemma tableOrSchema_precedence:
  "loadDataTypeRuleUsingTableOrSchema origin b ts ss =
     (let t = loadDataTypeRuleOnlyUsingTable origin b ts;
          s = loadDataTypeRuleOnlyUsingSchema origin b ss
      in if t \<noteq> b then t else if s \<noteq> b then s else b)"
  by (auto simp add: loadDataTypeRuleUsingTableOrSchema_def loadDataTypeRuleUsingTableAndSchema_def
      loadDataTypeRuleOnlyUsingTable_def loadDataTypeRuleOnlyUsingSchema_def Let_def)

lemma column_rules_precedence:
  "cs \<noteq> [] \<Longrightarrow>
   changeOracleTableColumnType columnName origin b cs ts ss =
     ToUpper (let c = loadDataTypeRuleOnlyUsingColumn columnName origin b cs;
                  other = loadDataTypeRuleUsingTableOrSchema origin b ts ss
              in if c \<noteq> b then c else if other \<noteq> b then other else b)"
  by (simp add: changeOracleTableColumnType_def Let_def)

lemma no_column_rules:
  "changeOracleTableColumnType columnName origin b [] ts ss =
     loadDataTypeRuleUsingTableOrSchema origin b ts ss"
  by (simp add: changeOracleTableColumnType_def)

lemma empty_target_is_skipped:
  "TableRuleMap.TargetColumnType r = [] \<Longrightarrow>
   loadDataTypeRuleOnlyUsingTable origin b (r # rs) = loadDataTypeRuleOnlyUsingTable origin b rs"
  by (cases rs) (simp_all add: loadDataTypeRuleOnlyUsingTable_def)

text \<open>
  Claim C2. The final type resolves column over table over schema, a rule with an empty
  target is no override, and the returned type is always upper-cased. The precedence
  holds (the three lemmas above), but the upper-casing does not: with no column-scope
  rules, \<open>changeOracleTableColumnType\<close> returns the table-scope or schema-scope target as
  the rule stores it. A table rule \<open>NUMBER(5) \<rightarrow> bigint\<close> gives \<open>bigint\<close>; the same
  rules next to any column-scope rule give \<open>BIGINT\<close>.
\<close>

theorem table_rule_not_uppercased:
  "changeOracleTableColumnType ''ID'' ''NUMBER(5)'' ''INT'' []
       [\<lparr>TableRuleMap.SourceColumnType = ''NUMBER(5)'', TargetColumnType = ''bigint''\<rparr>] []
     = ''bigint''
   \<and> ToUpper ''bigint'' = ''BIGINT''
   \<and> changeOracleTableColumnType ''ID'' ''NUMBER(5)'' ''INT''
       [\<lparr>SourceColumnName = ''OTHER'', SourceColumnType = ''DATE'', TargetColumnType = ''DATETIME''\<rparr>]
       [\<lparr>TableRuleMap.SourceColumnType = ''NUMBER(5)'', TargetColumnType = ''bigint''\<rparr>] []
     = ''BIGINT''"
  by (simp add: changeOracleTableColumnType_def loadDataTypeRuleUsingTableOrSchema_def
      loadDataTypeRuleOnlyUsingTable_def loadDataTypeRuleOnlyUsingColumn_def upper_eval)

subsection \<open>Comments in the column meta\<close>

lemma closes_quote_iff:
  "closes_quote s \<longleftrightarrow> (\<exists>j<length s. s ! j = CHR 0x27 \<and> (\<forall>k<j. s ! k \<noteq> CHR 0x0A))"
proof (induction s)
  case Nil
  show ?case by simp
next
  case (Cons c cs)
  show ?case
  proof (cases "c = CHR 0x27")
    case True
    then have "(c # cs) ! 0 = CHR 0x27 \<and> (\<forall>k<0. (c # cs) ! k \<noteq> CHR 0x0A)" by simp
    then have "\<exists>j<length (c # cs). (c # cs) ! j = CHR 0x27 \<and> (\<forall>k<j. (c # cs) ! k \<noteq> CHR 0x0A)"
      by (intro exI [of _ 0]) simp
    with True show ?thesis by simp
  next
    case notq: False
    show ?thesis
    proof (cases "c = CHR 0x0A")
      case True
      have "\<not> (\<exists>j<length (c # cs). (c # cs) ! j = CHR 0x27 \<and> (\<forall>k<j. (c # cs) ! k \<noteq> CHR 0x0A))"
      proof
        assume "\<exists>j<length (c # cs). (c # cs) ! j = CHR 0x27 \<and> (\<forall>k<j. (c # cs) ! k \<noteq> CHR 0x0A)"
        then obtain j where j: "(c # cs) ! j = CHR 0x27" "\<forall>k<j. (c # cs) ! k \<noteq> CHR 0x0A" by blast
        from j(1) notq have "0 < j" by (cases j) auto
        with j(2) have "(c # cs) ! 0 \<noteq> CHR 0x0A" by blast
        with True show False by simp
      qed
      with True notq show ?thesis by simp
    next
      case False
      have "(\<exists>j<length (c # cs). (c # cs) ! j = CHR 0x27 \<and> (\<forall>k<j. (c # cs) ! k \<noteq> CHR 0x0A))
            \<longleftrightarrow> (\<exists>j<length cs. cs ! j = CHR 0x27 \<and> (\<forall>k<j. cs ! k \<noteq> CHR 0x0A))"
        (is "?L \<longleftrightarrow> ?R")
      proof
        assume ?L
        then obtain j where j: "j < length (c # cs)" "(c # cs) ! j = CHR 0x27"
          "\<forall>k<j. (c # cs) ! k \<noteq> CHR 0x0A" by blast
        from j(2) notq obtain j' where j': "j = Suc j'" by (cases j) auto
        have "\<forall>k<j'. cs ! k \<noteq> CHR 0x0A"
        proof (intro allI impI)
          fix k assume "k < j'"
          then have "Suc k < j" using j' by simp
          with j(3) have "(c # cs) ! Suc k \<noteq> CHR 0x0A" by blast
          then show "cs ! k \<noteq> CHR 0x0A" by simp
        qed
        with j j' show ?R by auto
      next
        assume ?R
        then obtain j where j: "j < length cs" "cs ! j = CHR 0x27" "\<forall>k<j. cs ! k \<noteq> CHR 0x0A" by blast
        have "\<forall>k<Suc j. (c # cs) ! k \<noteq> CHR 0x0A"
        proof (intro allI impI)
          fix k assume "k < Suc j"
          then show "(c # cs) ! k \<noteq> CHR 0x0A" using j(3) False by (cases k) auto
        qed
        with j show ?L by (intro exI [of _ "Suc j"]) simp
      qed
      with notq False Cons.IH show ?thesis by simp
    qed
  qed
qed

lemma MatchQuoted_iff:
  "MatchQuoted s \<longleftrightarrow>
     (\<exists>i j. i < j \<and> j < length s \<and> s ! i = CHR 0x27 \<and> s ! j = CHR 0x27 \<and>
            (\<forall>k. i < k \<and> k < j \<longrightarrow> s ! k \<noteq> CHR 0x0A))"
proof (induction s)
  case Nil
  show ?case by simp
next
  case (Cons c cs)
  let ?P = "\<lambda>s i j. i < j \<and> j < length s \<and> s ! i = CHR 0x27 \<and> s ! j = CHR 0x27 \<and>
            (\<forall>k. i < k \<and> k < j \<longrightarrow> s ! k \<noteq> CHR 0x0A)"
  have here: "(c = CHR 0x27 \<and> closes_quote cs) \<longleftrightarrow> (\<exists>j. ?P (c # cs) 0 j)"
  proof
    assume a: "c = CHR 0x27 \<and> closes_quote cs"
    then obtain j where j: "j < length cs" "cs ! j = CHR 0x27" "\<forall>k<j. cs ! k \<noteq> CHR 0x0A"
      using closes_quote_iff by blast
    have "\<forall>k. 0 < k \<and> k < Suc j \<longrightarrow> (c # cs) ! k \<noteq> CHR 0x0A"
    proof (intro allI impI)
      fix k assume "0 < k \<and> k < Suc j"
      then obtain k' where "k = Suc k'" "k' < j" by (cases k) auto
      with j(3) show "(c # cs) ! k \<noteq> CHR 0x0A" by simp
    qed
    with a j show "\<exists>j. ?P (c # cs) 0 j" by (intro exI [of _ "Suc j"]) simp
  next
    assume "\<exists>j. ?P (c # cs) 0 j"
    then obtain j where j: "?P (c # cs) 0 j" by blast
    then obtain j' where j': "j = Suc j'" by (cases j) auto
    have "\<forall>k<j'. cs ! k \<noteq> CHR 0x0A"
    proof (intro allI impI)
      fix k assume "k < j'"
      then have "0 < Suc k \<and> Suc k < j" using j' by simp
      with j have "(c # cs) ! Suc k \<noteq> CHR 0x0A" by blast
      then show "cs ! k \<noteq> CHR 0x0A" by simp
    qed
    with j j' have "closes_quote cs" using closes_quote_iff by auto
    with j show "c = CHR 0x27 \<and> closes_quote cs" by simp
  qed
  have later: "(\<exists>i j. ?P cs i j) \<longleftrightarrow> (\<exists>i j. ?P (c # cs) (Suc i) j)"
  proof
    assume "\<exists>i j. ?P cs i j"
    then obtain i j where ij: "?P cs i j" by blast
    have "\<forall>k. Suc i < k \<and> k < Suc j \<longrightarrow> (c # cs) ! k \<noteq> CHR 0x0A"
    proof (intro allI impI)
      fix k assume "Suc i < k \<and> k < Suc j"
      then obtain k' where "k = Suc k'" "i < k'" "k' < j" by (cases k) auto
      with ij show "(c # cs) ! k \<noteq> CHR 0x0A" by simp
    qed
    with ij have "?P (c # cs) (Suc i) (Suc j)" by simp
    then show "\<exists>i j. ?P (c # cs) (Suc i) j" by blast
  next
    assume "\<exists>i j. ?P (c # cs) (Suc i) j"
    then obtain i j where ij: "?P (c # cs) (Suc i) j" by blast
    then obtain j' where j': "j = Suc j'" by (cases j) auto
    have "\<forall>k. i < k \<and> k < j' \<longrightarrow> cs ! k \<noteq> CHR 0x0A"
    proof (intro allI impI)
      fix k assume "i < k \<and> k < j'"
      then have "Suc i < Suc k \<and> Suc k < j" using j' by simp
      with ij have "(c # cs) ! Suc k \<noteq> CHR 0x0A" by blast
      then show "cs ! k \<noteq> CHR 0x0A" by simp
    qed
    with ij j' have "?P cs i j'" by simp
    then show "\<exists>i j. ?P cs i j" by blast
  qed
  have split: "(\<exists>i j. ?P (c # cs) i j) \<longleftrightarrow> (\<exists>j. ?P (c # cs) 0 j) \<or> (\<exists>i j. ?P (c # cs) (Suc i) j)"
  proof
    assume "\<exists>i j. ?P (c # cs) i j"
    then obtain i j where ij: "?P (c # cs) i j" by blast
    show "(\<exists>j. ?P (c # cs) 0 j) \<or> (\<exists>i j. ?P (c # cs) (Suc i) j)"
    proof (cases i)
      case 0
      with ij show ?thesis by blast
    next
      case (Suc i')
      with ij show ?thesis by blast
    qed
  next
    assume "(\<exists>j. ?P (c # cs) 0 j) \<or> (\<exists>i j. ?P (c # cs) (Suc i) j)"
    then show "\<exists>i j. ?P (c # cs) i j" by blast
  qed
  have "MatchQuoted (c # cs) \<longleftrightarrow> (c = CHR 0x27 \<and> closes_quote cs) \<or> MatchQuoted cs" by simp
  also have "\<dots> \<longleftrightarrow> (\<exists>j. ?P (c # cs) 0 j) \<or> (\<exists>i j. ?P (c # cs) (Suc i) j)"
    using here later Cons.IH by simp
  also have "\<dots> \<longleftrightarrow> (\<exists>i j. ?P (c # cs) i j)" using split by simp
  finally show ?case .
qed

lemma requoted:
  "(if Contains comments [CHR 0x22] then ReplaceAll comments (CHR 0x22) [CHR 0x27] else comments)
     = map (\<lambda>c. if c = CHR 0x22 then CHR 0x27 else c) comments"
proof (cases "CHR 0x22 \<in> set comments")
  case True
  then show ?thesis by (simp add: Contains_single ReplaceAll_char)
next
  case False
  then have "map (\<lambda>c. if c = CHR 0x22 then CHR 0x27 else c) comments = comments"
    by (intro map_idI) auto
  with False show ?thesis by (simp add: Contains_single)
qed

text \<open>
  Claim C9, as amended. In a non-empty comment every double quote is replaced by a single
  quote; the \<open>COMMENT\<close> clause, appended to the fragment the column would have without a
  comment, holds the replaced comment in double quotes when it contains a single-quoted
  span (two single quotes with no line feed between them) and in single quotes
  otherwise. A \<open>NUMBER(10,2)\<close> column \<open>PRICE\<close>, not nullable, with default \<open>0\<close> and the
  comment \<open>"retail"\<close> (double quotes included) yields
  \<^verbatim>\<open>`PRICE` DECIMAL(10,2) NOT NULL DEFAULT 0 COMMENT "'retail'"\<close>.
\<close>

theorem comment_quoting:
  assumes "comments \<noteq> []"
  shows "generateOracleTableColumnMeta columnName columnType dataNullable comments defaultValue dvs
         = generateOracleTableColumnMeta columnName columnType dataNullable [] defaultValue dvs
           @ '' COMMENT ''
           @ (let c = map (\<lambda>ch. if ch = CHR 0x22 then CHR 0x27 else ch) comments
              in if (\<exists>i j. i < j \<and> j < length c \<and> c ! i = CHR 0x27 \<and> c ! j = CHR 0x27 \<and>
                           (\<forall>k. i < k \<and> k < j \<longrightarrow> c ! k \<noteq> CHR 0x0A))
                 then [CHR 0x22] @ c @ [CHR 0x22] else [CHR 0x27] @ c @ [CHR 0x27])
       \<and> ReverseOracleTableColumnMapRule ''MARVIN'' ''GOODS'' ''PRICE'' ''NUMBER'' ''N''
            ([CHR 0x22] @ ''retail'' @ [CHR 0x22]) ''0'' ''2'' ''10'' ''22'' noRules
         = Inr (''`PRICE` DECIMAL(10,2) NOT NULL DEFAULT 0 COMMENT ''
                @ [CHR 0x22, CHR 0x27] @ ''retail'' @ [CHR 0x27, CHR 0x22])"
proof
  show "generateOracleTableColumnMeta columnName columnType dataNullable comments defaultValue dvs
         = generateOracleTableColumnMeta columnName columnType dataNullable [] defaultValue dvs
           @ '' COMMENT ''
           @ (let c = map (\<lambda>ch. if ch = CHR 0x22 then CHR 0x27 else ch) comments
              in if (\<exists>i j. i < j \<and> j < length c \<and> c ! i = CHR 0x27 \<and> c ! j = CHR 0x27 \<and>
                           (\<forall>k. i < k \<and> k < j \<longrightarrow> c ! k \<noteq> CHR 0x0A))
                 then [CHR 0x22] @ c @ [CHR 0x22] else [CHR 0x27] @ c @ [CHR 0x27])"
    using assms
    unfolding generateOracleTableColumnMeta_def requoted MatchQuoted_iff [symmetric] Let_def
    by simp
next
  show "ReverseOracleTableColumnMapRule ''MARVIN'' ''GOODS'' ''PRICE'' ''NUMBER'' ''N''
            ([CHR 0x22] @ ''retail'' @ [CHR 0x22]) ''0'' ''2'' ''10'' ''22'' noRules
         = Inr (''`PRICE` DECIMAL(10,2) NOT NULL DEFAULT 0 COMMENT ''
                @ [CHR 0x22, CHR 0x27] @ ''retail'' @ [CHR 0x27, CHR 0x22])"
    by (simp add: ReverseOracleTableColumnMapRule_def columnTypes_def changeOracleTableColumnType_def
        loadDataTypeRuleUsingTableOrSchema_def generateOracleTableColumnMeta_def ReplaceAll_def
        loadDataDefaultValueRule_def upper_eval Atoi_def isDigit_def digits_val_def digit_val_def
        Itoa_def digits.simps digit_char_def noRules_def)
qed

text \<open>The theorem at a comment that holds two apostrophes.\<close>

theorem comment_quoting_witness:
  "generateOracleTableColumnMeta ''NOTE'' ''VARCHAR(20)'' ''Y'' ''it's Bob's'' [] []
     = ''`NOTE` VARCHAR(20) COMMENT '' @ [CHR 0x22] @ ''it's Bob's'' @ [CHR 0x22]"
proof -
  have ne: "''it's Bob's'' \<noteq> []" by simp
  have m: "MatchQuoted ''it's Bob's''" by simp
  show ?thesis
    using comment_quoting [OF ne, of "''NOTE''" "''VARCHAR(20)''" "''Y''" "[]" "[]"]
    unfolding MatchQuoted_iff [symmetric] Let_def
    by (simp add: generateOracleTableColumnMeta_def)
qed

text \<open>
  Claim C9 as stated gives \<^verbatim>\<open>COMMENT '"retail"'\<close> for that column. The code returns it
  neither for the comment \<open>"retail"\<close> written with its double quotes nor for the bare
  word \<open>retail\<close>.
\<close>

theorem retail_comment_counterexample:
  "ReverseOracleTableColumnMapRule ''MARVIN'' ''GOODS'' ''PRICE'' ''NUMBER'' ''N''
      ([CHR 0x22] @ ''retail'' @ [CHR 0x22]) ''0'' ''2'' ''10'' ''22'' noRules
     \<noteq> Inr (''`PRICE` DECIMAL(10,2) NOT NULL DEFAULT 0 COMMENT ''
            @ [CHR 0x27, CHR 0x22] @ ''retail'' @ [CHR 0x22, CHR 0x27])
   \<and> ReverseOracleTableColumnMapRule ''MARVIN'' ''GOODS'' ''PRICE'' ''NUMBER'' ''N''
      ''retail'' ''0'' ''2'' ''10'' ''22'' noRules
     \<noteq> Inr (''`PRICE` DECIMAL(10,2) NOT NULL DEFAULT 0 COMMENT ''
            @ [CHR 0x27, CHR 0x22] @ ''retail'' @ [CHR 0x22, CHR 0x27])"
  by (simp add: ReverseOracleTableColumnMapRule_def columnTypes_def changeOracleTableColumnType_def
        loadDataTypeRuleUsingTableOrSchema_def generateOracleTableColumnMeta_def ReplaceAll_def
        loadDataDefaultValueRule_def upper_eval Atoi_def isDigit_def digits_val_def digit_val_def
        Itoa_def digits.simps digit_char_def noRules_def)
section \<open>Properties of the constraint translation\<close>

subsection \<open>Primary key\<close>

lemma ToUpper_backquoted: "ToUpper (CHR 0x60 # c @ [CHR 0x60]) = CHR 0x60 # ToUpper c @ [CHR 0x60]"
  by (simp add: ToUpper_lit)

lemma ToUpper_pkArr:
  "ToUpper (Join (map (\<lambda>col. CHR 0x60 # col @ [CHR 0x60]) cols) '','')
     = Join (map (\<lambda>col. CHR 0x60 # ToUpper col @ [CHR 0x60]) cols) '',''"
proof -
  have "map ToUpper (map (\<lambda>col. CHR 0x60 # col @ [CHR 0x60]) cols)
          = map (\<lambda>col. CHR 0x60 # ToUpper col @ [CHR 0x60]) cols"
    by (simp add: ToUpper_backquoted)
  moreover have "ToUpper '','' = '',''" by (simp add: ToUpper_lit)
  ultimately show ?thesis by (simp only: ToUpper_Join)
qed

text \<open>
  Claim C7. \<open>reverserOracleTablePKToMySQL\<close> yields at most one \<open>PRIMARY KEY\<close> fragment:
  whenever it succeeds the fragment list has at most one entry; two or more catalog rows
  make it fail with the multiple-primary-key error; exactly one row gives the single
  fragment \<^verbatim>\<open>PRIMARY KEY (`C1`,...)\<close> over the columns of the row's \<open>COLUMN_LIST\<close>, each
  upper-cased between back quotes, for an ASCII column list.
\<close>

theorem primary_key_at_most_one:
  "(\<forall>keysMeta pkArr. reverserOracleTablePKToMySQL t = Inr (keysMeta, pkArr) \<longrightarrow> length keysMeta \<le> 1)
   \<and> (\<forall>rows. GetOracleTablePrimaryKey (Engine t) (Table.SourceSchemaName t) (Table.SourceTableName t)
                 = Inr rows \<and> 2 \<le> length rows
               \<longrightarrow> reverserOracleTablePKToMySQL t = Inl MultiplePK)
   \<and> (\<forall>r. GetOracleTablePrimaryKey (Engine t) (Table.SourceSchemaName t) (Table.SourceTableName t)
                 = Inr [r] \<and> isASCII (row_get r ''COLUMN_LIST'')
            \<longrightarrow> reverserOracleTablePKToMySQL t =
                  Inr ([''PRIMARY KEY (''
                          @ Join (map (\<lambda>col. ''`'' @ ToUpper col @ ''`'')
                                    (Split (row_get r ''COLUMN_LIST'') (CHR '',''))) '',''
                          @ '')''],
                       map (\<lambda>col. ''`'' @ col @ ''`'') (Split (row_get r ''COLUMN_LIST'') (CHR '',''))))"
proof (intro conjI allI impI)
  fix keysMeta pkArr
  assume "reverserOracleTablePKToMySQL t = Inr (keysMeta, pkArr)"
  then show "length keysMeta \<le> 1"
    by (auto simp add: reverserOracleTablePKToMySQL_def Let_def split: sum.splits if_splits)
next
  fix rows
  assume "GetOracleTablePrimaryKey (Engine t) (Table.SourceSchemaName t) (Table.SourceTableName t)
            = Inr rows \<and> 2 \<le> length rows"
  then show "reverserOracleTablePKToMySQL t = Inl MultiplePK"
    by (simp add: reverserOracleTablePKToMySQL_def)
next
  fix r
  assume "GetOracleTablePrimaryKey (Engine t) (Table.SourceSchemaName t) (Table.SourceTableName t)
            = Inr [r] \<and> isASCII (row_get r ''COLUMN_LIST'')"
  then show "reverserOracleTablePKToMySQL t =
                  Inr ([''PRIMARY KEY (''
                          @ Join (map (\<lambda>col. ''`'' @ ToUpper col @ ''`'')
                                    (Split (row_get r ''COLUMN_LIST'') (CHR '',''))) '',''
                          @ '')''],
                       map (\<lambda>col. ''`'' @ col @ ''`'') (Split (row_get r ''COLUMN_LIST'') (CHR '','')))"
    by (simp add: reverserOracleTablePKToMySQL_def Let_def ToUpper_pkArr)
qed

text \<open>The theorem at a catalog with the one primary-key row \<open>id,name\<close>, and at one
  with two rows.\<close>

theorem primary_key_at_most_one_witness:
  "reverserOracleTablePKToMySQL
     (tableOver (emptyCatalog\<lparr>GetOracleTablePrimaryKey := \<lambda>s t. Inr [[''COLUMN_LIST'' \<mapsto> ''id,name'']]\<rparr>))
     = Inr ([''PRIMARY KEY (`ID`,`NAME`)''], [''`id`'', ''`name`''])
   \<and> reverserOracleTablePKToMySQL
     (tableOver (emptyCatalog\<lparr>GetOracleTablePrimaryKey :=
        \<lambda>s t. Inr [[''COLUMN_LIST'' \<mapsto> ''id''], [''COLUMN_LIST'' \<mapsto> ''name'']]\<rparr>))
     = Inl MultiplePK"
proof
  let ?t = "tableOver (emptyCatalog\<lparr>GetOracleTablePrimaryKey := \<lambda>s t. Inr [[''COLUMN_LIST'' \<mapsto> ''id,name'']]\<rparr>)"
  have g: "GetOracleTablePrimaryKey (Engine ?t) (Table.SourceSchemaName ?t) (Table.SourceTableName ?t)
             = Inr [[''COLUMN_LIST'' \<mapsto> ''id,name'']]
           \<and> isASCII (row_get [''COLUMN_LIST'' \<mapsto> ''id,name''] ''COLUMN_LIST'')"
    by (simp add: tableOver_def emptyCatalog_def row_get_def isASCII_def)
  from primary_key_at_most_one [of ?t] g
  have "reverserOracleTablePKToMySQL ?t =
          Inr ([''PRIMARY KEY (''
                  @ Join (map (\<lambda>col. ''`'' @ ToUpper col @ ''`'')
                            (Split (row_get [''COLUMN_LIST'' \<mapsto> ''id,name''] ''COLUMN_LIST'') (CHR '',''))) '',''
                  @ '')''],
               map (\<lambda>col. ''`'' @ col @ ''`'')
                 (Split (row_get [''COLUMN_LIST'' \<mapsto> ''id,name''] ''COLUMN_LIST'') (CHR '','')))"
    by blast
  then show "reverserOracleTablePKToMySQL ?t = Inr ([''PRIMARY KEY (`ID`,`NAME`)''], [''`id`'', ''`name`''])"
    by (simp add: row_get_def Split_def upper_eval)
next
  let ?t = "tableOver (emptyCatalog\<lparr>GetOracleTablePrimaryKey :=
        \<lambda>s t. Inr [[''COLUMN_LIST'' \<mapsto> ''id''], [''COLUMN_LIST'' \<mapsto> ''name'']]\<rparr>)"
  have g: "GetOracleTablePrimaryKey (Engine ?t) (Table.SourceSchemaName ?t) (Table.SourceTableName ?t)
             = Inr [[''COLUMN_LIST'' \<mapsto> ''id''], [''COLUMN_LIST'' \<mapsto> ''name'']]
           \<and> 2 \<le> length [[''COLUMN_LIST'' \<mapsto> ''id''], [''COLUMN_LIST'' \<mapsto> ''name'' :: string]]"
    by (simp add: tableOver_def emptyCatalog_def)
  from primary_key_at_most_one [of ?t] g
  show "reverserOracleTablePKToMySQL ?t = Inl MultiplePK" by blast
qed

subsection \<open>Check constraints\<close>

lemmas ck_eval = reverserOracleTableCKToMySQL_def connectorClauses_def checkFragment_def slice_def
  isConnector_def EqualFold_def ContainsFold_def keywordThenSpace_def isRegexpSpace_def isSpace_def
  TrimSpace_def Fields_def row_get_def checkRow_def tableOver_def emptyCatalog_def upper_eval

text \<open>The two conditions the specification gives as examples: the \<open>IS NOT NULL\<close> clause
  is dropped and the rest emitted, and a lone \<open>IS NOT NULL\<close> emits nothing.\<close>

lemma check_example_kept:
  "reverserOracleTableCKToMySQL
     (tableOver (emptyCatalog\<lparr>GetOracleTableCheckKey := \<lambda>s t. Inr
        [checkRow ''ck_loc'' ([CHR 0x22] @ ''LOC'' @ [CHR 0x22] @ '' IS NOT NULL AND LOC IN ('a','b')'')]\<rparr>))
   = Inr [''CONSTRAINT `CK_LOC` CHECK (LOC IN ('a','b'))'']"
  by (simp add: ck_eval)

lemma check_example_dropped:
  "reverserOracleTableCKToMySQL
     (tableOver (emptyCatalog\<lparr>GetOracleTableCheckKey := \<lambda>s t. Inr
        [checkRow ''ck_loc'' ([CHR 0x22] @ ''LOC'' @ [CHR 0x22] @ '' IS NOT NULL'')]\<rparr>))
   = Inr []"
  by (simp add: ck_eval)

text \<open>
  Claim C6. For every search condition the translator splits at the connectors \<open>AND\<close>
  and \<open>OR\<close> (in any case), drops the clauses that match \<open>IS NOT NULL\<close>, trims a dangling
  connector and emits what remains as a \<open>CONSTRAINT ... CHECK (...)\<close> fragment. It does so
  on the two examples above, but not on every condition: when every clause is dropped
  nothing remains, and the code then reads \<open>d[0]\<close> of an empty token list. On
  \<^verbatim>\<open>"LOC" IS NOT NULL and "ID" IS NOT NULL\<close> the function panics and emits no fragment
  for any row of the table.
\<close>

theorem check_remainder_empty_not_emitted:
  "reverserOracleTableCKToMySQL
     (tableOver (emptyCatalog\<lparr>GetOracleTableCheckKey := \<lambda>s t. Inr
        [checkRow ''ck_loc'' ([CHR 0x22] @ ''LOC'' @ [CHR 0x22] @ '' IS NOT NULL and ''
                              @ [CHR 0x22] @ ''ID'' @ [CHR 0x22] @ '' IS NOT NULL'')]\<rparr>))
   = Inl IndexOutOfRange"
  by (simp add: ck_eval)

text \<open>
  Claim C10. \<open>reverserOracleTableCKToMySQL\<close> returns normally on every search condition,
  with zero or one fragment per catalog row, also when every clause of a condition with
  connectors matches \<open>IS NOT NULL\<close>. On the condition the claim names,
  \<^verbatim>\<open>"A" IS NOT NULL AND "B" IS NOT NULL\<close>, the code panics with an index out of range.
\<close>

theorem check_all_not_null_panics:
  "reverserOracleTableCKToMySQL
     (tableOver (emptyCatalog\<lparr>GetOracleTableCheckKey := \<lambda>s t. Inr
        [checkRow ''ck_ab'' ([CHR 0x22] @ ''A'' @ [CHR 0x22] @ '' IS NOT NULL AND ''
                              @ [CHR 0x22] @ ''B'' @ [CHR 0x22] @ '' IS NOT NULL'')]\<rparr>))
   = Inl IndexOutOfRange"
  by (simp add: ck_eval)

section \<open>Properties of the sync metadata\<close>

subsection \<open>Tables without rows\<close>

lemma nextOutcome_clean: "faults db = [] \<Longrightarrow> nextOutcome db = (None, db)"
  by (simp add: nextOutcome_def)

text \<open>
  Claim C3. For a table of ASCII name whose row-count statistic is zero, and a store that
  accepts the two statements, \<open>InitWaitAndFullSyncMetaRecord\<close> returns without an error after
  creating exactly one \<open>FullSyncMeta\<close> row, whose predicate is the full-table statement
  \<open>SELECT * FROM schema.table\<close>, and updating the table's \<open>WaitSyncMeta\<close> rows to the
  given SCN with \<open>FullSplitTimes = 1\<close> (the row count 0 normalised to 1) and the
  partition flag; the Oracle side is as before: no chunk task is created.
\<close>

theorem zero_rows_full_table_scan:
  assumes "getOracleTableRowsByStatistics e schemaName tableName = Inr (0, isPartition)"
    and "faults (GormDB e) = []"
    and "isASCII schemaName"
    and "isASCII tableName"
  shows "InitWaitAndFullSyncMetaRecord SplitIntSlice e schemaName tableName workerID globalSCN
           chunkSize insertBatchSize syncMode
         = (None,
            e\<lparr>GormDB := (GormDB e)
               \<lparr>full_sync_meta := full_sync_meta (GormDB e) @
                    [\<lparr>FullSyncMeta.SourceSchemaName = ToUpper schemaName,
                      FullSyncMeta.SourceTableName = ToUpper tableName,
                      RowidSQL = ''SELECT * FROM '' @ schemaName @ ''.'' @ tableName,
                      FullSyncMeta.IsPartition = isPartition, GlobalSCN = globalSCN\<rparr>],
                wait_sync_meta :=
                  map (\<lambda>w. if WaitSyncMeta.SourceSchemaName w = ToUpper schemaName \<and>
                               WaitSyncMeta.SourceTableName w = ToUpper tableName \<and>
                               SyncMode w = syncMode
                            then w\<lparr>FullGlobalSCN := globalSCN, FullSplitTimes := 1,
                                   WaitSyncMeta.IsPartition := isPartition\<rparr>
                            else w)
                    (wait_sync_meta (GormDB e)),
                created := created (GormDB e) @
                    [[\<lparr>FullSyncMeta.SourceSchemaName = ToUpper schemaName,
                       FullSyncMeta.SourceTableName = ToUpper tableName,
                       RowidSQL = ''SELECT * FROM '' @ schemaName @ ''.'' @ tableName,
                       FullSyncMeta.IsPartition = isPartition, GlobalSCN = globalSCN\<rparr>]]\<rparr>\<rparr>)"
  using assms
  by (simp add: InitWaitAndFullSyncMetaRecord_def UpdateWaitSyncMetaTableRecord_def Create_def
      UpdateWhere_def nextOutcome_def StringsBuilder_def Let_def)


text \<open>The theorem at a table \<open>marvin.t1\<close> whose statistics report 0 rows and whose
  \<open>WaitSyncMeta\<close> row is pristine, \<open>(-1, -1)\<close>.\<close>

theorem zero_rows_full_table_scan_witness:
  "(case InitWaitAndFullSyncMetaRecord onePart
           (engineOver (\<lambda>done sql. Inr [statisticsRow ''0'' ''NO''])
              [] [waiting ''MARVIN'' ''T1'' ''FULL'' (- 1) (- 1)])
           ''marvin'' ''t1'' 1 100 1000 10 ''FULL'' of
      (err, e') \<Rightarrow>
        err = None \<and>
        map RowidSQL (full_sync_meta (GormDB e')) = [''SELECT * FROM marvin.t1''] \<and>
        map FullSplitTimes (wait_sync_meta (GormDB e')) = [1] \<and>
        map FullGlobalSCN (wait_sync_meta (GormDB e')) = [100] \<and>
        executed (OracleDB e') = [])"
proof -
  let ?e = "engineOver (\<lambda>done sql. Inr [statisticsRow ''0'' ''NO''])
              [] [waiting ''MARVIN'' ''T1'' ''FULL'' (- 1) (- 1)]"
  have s: "getOracleTableRowsByStatistics ?e ''marvin'' ''t1'' = Inr (0, ''NO'')"
    by (simp add: getOracleTableRowsByStatistics_def query_def engineOver_def statisticsRow_def
        row_get_def Atoi_def isDigit_def digits_val_def digit_val_def)
  have f: "faults (GormDB ?e) = []" by (simp add: engineOver_def)
  have a: "isASCII ''marvin''" "isASCII ''t1''" by (simp_all add: isASCII_def)
  show ?thesis
    using zero_rows_full_table_scan [OF s f a, of onePart 1 100 1000 10 "''FULL''"]
    by (simp add: engineOver_def waiting_def upper_eval)
qed

subsection \<open>Inserting the chunks in batches\<close>

lemma Create_ok:
  "Create batch db = (None, db') \<Longrightarrow>
     full_sync_meta db' = full_sync_meta db @ batch \<and> created db' = created db @ [batch] \<and>
     wait_sync_meta db' = wait_sync_meta db"
  by (auto simp add: Create_def nextOutcome_def split: list.splits option.splits)

lemma appendByIndex_prefix:
  "appendByIndex fullMetas ms batch = Some batch' \<Longrightarrow> prefix batch batch'"
proof (induction ms arbitrary: batch)
  case Nil
  then show ?case by simp
next
  case (Cons idx ms)
  then have "prefix (batch @ [fullMetas ! nat idx]) batch'" by (simp split: if_splits)
  then show ?case using append_prefixD by blast
qed

lemma insertBatches_log:
  "insertBatches fullMetas pieces batch db = (None, db') \<Longrightarrow>
     \<exists>bs. created db' = created db @ bs \<and> full_sync_meta db' = full_sync_meta db @ concat bs \<and>
          wait_sync_meta db' = wait_sync_meta db \<and>
          (\<forall>b\<in>set bs. prefix batch b) \<and> (\<forall>b\<in>set bs. prefix b (last bs))"
proof (induction pieces arbitrary: batch db)
  case Nil
  then show ?case by simp
next
  case (Cons ms rest)
  from Cons.prems obtain batch1 where a: "appendByIndex fullMetas ms batch = Some batch1"
    by (cases "appendByIndex fullMetas ms batch") auto
  from Cons.prems a obtain db1 where c: "Create batch1 db = (None, db1)"
    and r: "insertBatches fullMetas rest batch1 db1 = (None, db')"
    by (cases "Create batch1 db") (auto split: option.splits)
  from Cons.IH [OF r] obtain bs where bs: "created db' = created db1 @ bs"
    "full_sync_meta db' = full_sync_meta db1 @ concat bs" "wait_sync_meta db' = wait_sync_meta db1"
    "\<forall>b\<in>set bs. prefix batch1 b" "\<forall>b\<in>set bs. prefix b (last bs)" by blast
  have p: "prefix batch batch1" using a by (rule appendByIndex_prefix)
  have "\<forall>b\<in>set (batch1 # bs). prefix batch b"
    using p bs(4) by (auto intro: prefix_order.trans)
  moreover have "\<forall>b\<in>set (batch1 # bs). prefix b (last (batch1 # bs))"
  proof (cases "bs = []")
    case True
    then show ?thesis by simp
  next
    case False
    then have "last bs \<in> set bs" by simp
    with bs(4) have "prefix batch1 (last bs)" by blast
    with False bs(5) show ?thesis by simp
  qed
  moreover have "created db' = created db @ (batch1 # bs)"
    "full_sync_meta db' = full_sync_meta db @ concat (batch1 # bs)"
    "wait_sync_meta db' = wait_sync_meta db"
    using Create_ok [OF c] bs(1-3) by simp_all
  ultimately show ?case by blast
qed


lemma chunk_rows_distinct:
  assumes "distinct (map (\<lambda>r. row_get r ''CMD'') res)"
  shows "distinct (map (\<lambda>r. \<lparr>FullSyncMeta.SourceSchemaName = s, FullSyncMeta.SourceTableName = t,
                               RowidSQL = row_get r ''CMD'', FullSyncMeta.IsPartition = p,
                               GlobalSCN = n\<rparr>) res)"
proof -
  have "map (\<lambda>r. row_get r ''CMD'') res
          = map RowidSQL (map (\<lambda>r. \<lparr>FullSyncMeta.SourceSchemaName = s, FullSyncMeta.SourceTableName = t,
                               RowidSQL = row_get r ''CMD'', FullSyncMeta.IsPartition = p,
                               GlobalSCN = n\<rparr>) res)"
    by simp
  with assms show ?thesis using distinct_map by metis
qed

lemma chunks_single_batch:
  assumes "query e (chunksQuerySQL taskName schemaName tableName) = Inr res"
    and "res \<noteq> []"
    and "int (length res) \<le> insertBatchSize"
    and "faults (GormDB e) = []"
  shows "GetOracleTableChunksByRowID SplitIntSlice e taskName schemaName tableName globalSCN
           insertBatchSize isPartition
         = (Inr (int (length res)),
            e\<lparr>GormDB := (GormDB e)
               \<lparr>full_sync_meta := full_sync_meta (GormDB e) @
                    map (\<lambda>r. \<lparr>FullSyncMeta.SourceSchemaName = ToUpper schemaName,
                               FullSyncMeta.SourceTableName = ToUpper tableName,
                               RowidSQL = row_get r ''CMD'',
                               FullSyncMeta.IsPartition = isPartition,
                               GlobalSCN = globalSCN\<rparr>) res,
                created := created (GormDB e) @
                    [map (\<lambda>r. \<lparr>FullSyncMeta.SourceSchemaName = ToUpper schemaName,
                               FullSyncMeta.SourceTableName = ToUpper tableName,
                               RowidSQL = row_get r ''CMD'',
                               FullSyncMeta.IsPartition = isPartition,
                               GlobalSCN = globalSCN\<rparr>) res]\<rparr>\<rparr>)"
  using assms
  by (simp add: GetOracleTableChunksByRowID_def Create_def nextOutcome_def Let_def)

lemmas chunks_eval = GetOracleTableChunksByRowID_def query_def engineOver_def Create_def
  nextOutcome_def row_get_def chunkRow_def equalParts_def evenParts.simps Let_def

lemma chunks_three_by_two:
  "(case GetOracleTableChunksByRowID equalParts
           (engineOver (\<lambda>done sql. Inr [chunkRow ''c1'', chunkRow ''c2'', chunkRow ''c3'']) [] [])
           ''MARVIN_T1_TASK1'' ''MARVIN'' ''T1'' 100 2 ''NO'' of
      (r, e') \<Rightarrow> r = Inr 3 \<and>
         map (map RowidSQL) (created (GormDB e')) = [[''c1'', ''c2'', ''c3'']])"
  by (simp add: chunks_eval)

lemma chunks_four_by_two:
  "(case GetOracleTableChunksByRowID equalParts
           (engineOver (\<lambda>done sql. Inr [chunkRow ''c1'', chunkRow ''c2'', chunkRow ''c3'', chunkRow ''c4''])
              [] [])
           ''MARVIN_T1_TASK1'' ''MARVIN'' ''T1'' 100 2 ''NO'' of
      (r, e') \<Rightarrow> r = Inr 4 \<and>
         map (map RowidSQL) (created (GormDB e')) = [[''c1'', ''c2''], [''c1'', ''c2'', ''c3'', ''c4'']] \<and>
         map RowidSQL (full_sync_meta (GormDB e')) = [''c1'', ''c2'', ''c1'', ''c2'', ''c3'', ''c4''])"
  by (simp add: chunks_eval)

text \<open>
  Claim C4. For \<open>K \<ge> 1\<close> chunks and a batch size \<open>B \<ge> 1\<close>,
  \<open>GetOracleTableChunksByRowID\<close> inserts exactly one \<open>FullSyncMeta\<close> row per chunk, in
  batches of at most \<open>B\<close> rows, and returns \<open>K\<close>. With \<open>K \<le> B\<close> it does
  (\<open>chunks_single_batch\<close>). With \<open>K > B\<close> it cannot, whatever \<open>utils.SplitIntSlice\<close>
  returns: the batch is not emptied between two rounds of the loop, so every batch
  contains the one before it, and if the inserted rows cover all the chunks then the
  last batch alone holds \<open>K > B\<close> rows. For distinct chunks and \<open>1 \<le> B < K\<close> no run
  returns \<open>K\<close> with every batch within \<open>B\<close> and a row for every chunk. The two
  lemmas above show it with a splitter that cuts into equal parts: 3 chunks with
  \<open>B = 2\<close> go out as one batch of 3; 4 chunks with \<open>B = 2\<close> go out as a batch of 2 and
  a batch of 4, the first two rows twice.
\<close>

theorem batched_chunks_miss_the_bound:
  assumes "query e (chunksQuerySQL taskName schemaName tableName) = Inr res"
    and "1 \<le> insertBatchSize"
    and "insertBatchSize < int (length res)"
    and "distinct (map (\<lambda>r. row_get r ''CMD'') res)"
  shows "\<not> (\<exists>e'. GetOracleTableChunksByRowID SplitIntSlice e taskName schemaName tableName globalSCN
                    insertBatchSize isPartition = (Inr (int (length res)), e')
              \<and> list_all (\<lambda>batch. int (length batch) \<le> insertBatchSize)
                    (drop (length (created (GormDB e))) (created (GormDB e')))
              \<and> set (drop (length (full_sync_meta (GormDB e))) (full_sync_meta (GormDB e')))
                  = set (map (\<lambda>r. \<lparr>FullSyncMeta.SourceSchemaName = ToUpper schemaName,
                                      FullSyncMeta.SourceTableName = ToUpper tableName,
                                      RowidSQL = row_get r ''CMD'',
                                      FullSyncMeta.IsPartition = isPartition,
                                      GlobalSCN = globalSCN\<rparr>) res))"
proof
  let ?fullMetas = "map (\<lambda>r. \<lparr>FullSyncMeta.SourceSchemaName = ToUpper schemaName,
                                      FullSyncMeta.SourceTableName = ToUpper tableName,
                                      RowidSQL = row_get r ''CMD'',
                                      FullSyncMeta.IsPartition = isPartition,
                                      GlobalSCN = globalSCN\<rparr>) res"
  let ?pieces = "SplitIntSlice (map int [0..<length res]) (int (length res) sdiv insertBatchSize)"
  assume "\<exists>e'. GetOracleTableChunksByRowID SplitIntSlice e taskName schemaName tableName globalSCN
                    insertBatchSize isPartition = (Inr (int (length res)), e')
              \<and> list_all (\<lambda>batch. int (length batch) \<le> insertBatchSize)
                    (drop (length (created (GormDB e))) (created (GormDB e')))
              \<and> set (drop (length (full_sync_meta (GormDB e))) (full_sync_meta (GormDB e')))
                  = set ?fullMetas"
  then obtain e' where run: "GetOracleTableChunksByRowID SplitIntSlice e taskName schemaName tableName
        globalSCN insertBatchSize isPartition = (Inr (int (length res)), e')"
    and small: "list_all (\<lambda>batch. int (length batch) \<le> insertBatchSize)
                    (drop (length (created (GormDB e))) (created (GormDB e')))"
    and all: "set (drop (length (full_sync_meta (GormDB e))) (full_sync_meta (GormDB e')))
                  = set ?fullMetas"
    by blast
  from assms(2,3) have ne: "length res \<noteq> 0" and big: "\<not> int (length res) \<le> insertBatchSize"
    and nz: "insertBatchSize \<noteq> 0" by auto
  from run assms(1) ne big nz obtain g where
    loop: "insertBatches ?fullMetas ?pieces [] (GormDB e) = (None, g)" and e': "e' = e\<lparr>GormDB := g\<rparr>"
    by (cases "insertBatches ?fullMetas ?pieces [] (GormDB e)")
       (auto simp add: GetOracleTableChunksByRowID_def Let_def split: option.splits)
  from insertBatches_log [OF loop] obtain bs where
    bs: "created g = created (GormDB e) @ bs" "full_sync_meta g = full_sync_meta (GormDB e) @ concat bs"
        "\<forall>b\<in>set bs. prefix b (last bs)"
    by blast
  from small e' bs(1) have small': "\<forall>b\<in>set bs. int (length b) \<le> insertBatchSize"
    by (simp add: list_all_iff)
  from all e' bs(2) have all': "set (concat bs) = set ?fullMetas" by simp
  from ne have "set ?fullMetas \<noteq> {}" by simp
  with all' have "bs \<noteq> []" by auto
  then have l: "last bs \<in> set bs" by simp
  have "set (concat bs) \<subseteq> set (last bs)"
    using bs(3) set_mono_prefix by fastforce
  with all' have "card (set ?fullMetas) \<le> card (set (last bs))"
    by (simp add: card_mono)
  also have "\<dots> \<le> length (last bs)" by (rule card_length)
  finally have "card (set ?fullMetas) \<le> length (last bs)" .
  moreover have "card (set ?fullMetas) = length res"
    using chunk_rows_distinct [OF assms(4)] distinct_card by fastforce
  ultimately have "int (length res) \<le> int (length (last bs))" by simp
  with small' l have "int (length res) \<le> insertBatchSize" by fastforce
  with assms(3) show False by simp
qed

text \<open>The theorem at three chunks and \<open>B = 2\<close>.\<close>

theorem batched_chunks_miss_the_bound_witness:
  "\<not> (\<exists>e'. GetOracleTableChunksByRowID equalParts
               (engineOver (\<lambda>done sql. Inr [chunkRow ''c1'', chunkRow ''c2'', chunkRow ''c3'']) [] [])
               ''MARVIN_T1_TASK1'' ''MARVIN'' ''T1'' 100 2 ''NO''
             = (Inr (int (length [chunkRow ''c1'', chunkRow ''c2'', chunkRow ''c3''])), e')
          \<and> list_all (\<lambda>batch. int (length batch) \<le> 2)
               (drop (length (created (GormDB
                   (engineOver (\<lambda>done sql. Inr [chunkRow ''c1'', chunkRow ''c2'', chunkRow ''c3'']) [] []))))
                 (created (GormDB e')))
          \<and> set (drop (length (full_sync_meta (GormDB
                   (engineOver (\<lambda>done sql. Inr [chunkRow ''c1'', chunkRow ''c2'', chunkRow ''c3'']) [] []))))
                 (full_sync_meta (GormDB e')))
              = set (map (\<lambda>r. \<lparr>FullSyncMeta.SourceSchemaName = ToUpper ''MARVIN'',
                                  FullSyncMeta.SourceTableName = ToUpper ''T1'',
                                  RowidSQL = row_get r ''CMD'',
                                  FullSyncMeta.IsPartition = ''NO'',
                                  GlobalSCN = 100\<rparr>)
                       [chunkRow ''c1'', chunkRow ''c2'', chunkRow ''c3'']))"
proof (rule batched_chunks_miss_the_bound)
  show "query (engineOver (\<lambda>done sql. Inr [chunkRow ''c1'', chunkRow ''c2'', chunkRow ''c3'']) [] [])
          (chunksQuerySQL ''MARVIN_T1_TASK1'' ''MARVIN'' ''T1'')
        = Inr [chunkRow ''c1'', chunkRow ''c2'', chunkRow ''c3'']"
    by (simp add: query_def engineOver_def)
  show "(1::int) \<le> 2" by simp
  show "2 < int (length [chunkRow ''c1'', chunkRow ''c2'', chunkRow ''c3''])" by simp
  show "distinct (map (\<lambda>r. row_get r ''CMD'') [chunkRow ''c1'', chunkRow ''c2'', chunkRow ''c3''])"
    by (simp add: row_get_def chunkRow_def)
qed

subsection \<open>Completing a chunk\<close>

lemma filter_removed_count:
  assumes "\<forall>x. P x \<longrightarrow> Q x"
  shows "length (filter Q (filter (\<lambda>x. \<not> P x) xs)) + length (filter P xs) = length (filter Q xs)"
  using assms by (induction xs) auto

text \<open>
  Claim C5. \<open>ModifyWaitAndFullSyncTableMetaRecord\<close> runs the deletion and the decrement as
  one transaction. The names and the rowid statements are ASCII, and one \<open>FullSyncMeta\<close>
  row matches the schema, the table and, compared without regard to case, the rowid
  statement. When the call returns an error, both tables are as they were before it:
  neither the deletion nor the decrement persists. When it succeeds, the matching row is
  gone and every other row is kept, \<open>FullSplitTimes\<close> of the table's \<open>WaitSyncMeta\<close> rows
  is one less, and so is the number of \<open>FullSyncMeta\<close> rows of the table: both counters
  are reduced by exactly one. With a store that accepts every statement the call
  succeeds.
\<close>

theorem delete_chunk_atomic:
  assumes "isASCII sourceSchemaName"
    and "isASCII sourceTableName"
    and "isASCII rowidSQL"
    and "list_all (\<lambda>r. isASCII (RowidSQL r)) (full_sync_meta (GormDB e))"
    and "length (filter (\<lambda>r. FullSyncMeta.SourceSchemaName r = ToUpper sourceSchemaName \<and>
                             FullSyncMeta.SourceTableName r = ToUpper sourceTableName \<and>
                             ToUpper (RowidSQL r) = ToUpper rowidSQL)
                   (full_sync_meta (GormDB e))) = 1"
  shows "(case ModifyWaitAndFullSyncTableMetaRecord e metaSchemaName sourceSchemaName sourceTableName
                 rowidSQL syncMode of
            (Some err, e') \<Rightarrow>
               full_sync_meta (GormDB e') = full_sync_meta (GormDB e) \<and>
               wait_sync_meta (GormDB e') = wait_sync_meta (GormDB e)
          | (None, e') \<Rightarrow>
               full_sync_meta (GormDB e') =
                 filter (\<lambda>r. \<not> (FullSyncMeta.SourceSchemaName r = ToUpper sourceSchemaName \<and>
                                FullSyncMeta.SourceTableName r = ToUpper sourceTableName \<and>
                                ToUpper (RowidSQL r) = ToUpper rowidSQL))
                   (full_sync_meta (GormDB e)) \<and>
               length (full_sync_meta (GormDB e')) + 1 = length (full_sync_meta (GormDB e)) \<and>
               wait_sync_meta (GormDB e') =
                 map (\<lambda>w. if WaitSyncMeta.SourceSchemaName w = ToUpper sourceSchemaName \<and>
                              WaitSyncMeta.SourceTableName w = ToUpper sourceTableName \<and>
                              SyncMode w = syncMode
                           then w\<lparr>FullSplitTimes := FullSplitTimes w - 1\<rparr> else w)
                   (wait_sync_meta (GormDB e)) \<and>
               fullSyncMetaCount (GormDB e') sourceSchemaName sourceTableName
                 = fullSyncMetaCount (GormDB e) sourceSchemaName sourceTableName - 1)
         \<and> (faults (GormDB e) = [] \<longrightarrow>
              fst (ModifyWaitAndFullSyncTableMetaRecord e metaSchemaName sourceSchemaName
                     sourceTableName rowidSQL syncMode) = None)"
proof -
  let ?P = "\<lambda>r. FullSyncMeta.SourceSchemaName r = ToUpper sourceSchemaName \<and>
                 FullSyncMeta.SourceTableName r = ToUpper sourceTableName \<and>
                 ToUpper (RowidSQL r) = ToUpper rowidSQL"
  let ?Q = "\<lambda>r. FullSyncMeta.SourceSchemaName r = ToUpper sourceSchemaName \<and>
                 FullSyncMeta.SourceTableName r = ToUpper sourceTableName"
  let ?old = "full_sync_meta (GormDB e)"
  have "length (filter ?Q (filter (\<lambda>r. \<not> ?P r) ?old)) + length (filter ?P ?old)
          = length (filter ?Q ?old)"
    by (rule filter_removed_count) simp
  with assms(5) have count: "int (length (filter ?Q (filter (\<lambda>r. \<not> ?P r) ?old)))
                 = int (length (filter ?Q ?old)) - 1"
    by simp
  have "length (filter ?P ?old) + length (filter (\<lambda>r. \<not> ?P r) ?old) = length ?old"
    by (rule sum_length_filter_compl)
  with assms(5) have len: "length (filter (\<lambda>r. \<not> ?P r) ?old) + 1 = length ?old"
    by simp
  show ?thesis
    using count len
    by (auto simp add: ModifyWaitAndFullSyncTableMetaRecord_def Transaction_def DeleteWhere_def
        UpdateWhere_def nextOutcome_def fullSyncMetaCount_def
        split: list.splits option.splits prod.splits)
qed

text \<open>The theorem at a table with two chunks left, completing the first: one row and a
  counter of 1 remain.\<close>

theorem delete_chunk_atomic_witness:
  "fst (ModifyWaitAndFullSyncTableMetaRecord
          (engineOver (\<lambda>done sql. Inr [])
             [chunkOf ''MARVIN'' ''T1'' ''c1'', chunkOf ''MARVIN'' ''T1'' ''c2'']
             [waiting ''MARVIN'' ''T1'' ''FULL'' 100 2])
          ''META'' ''marvin'' ''t1'' ''C1'' ''FULL'') = None
   \<and> map RowidSQL (full_sync_meta
       (GormDB (snd (ModifyWaitAndFullSyncTableMetaRecord
          (engineOver (\<lambda>done sql. Inr [])
             [chunkOf ''MARVIN'' ''T1'' ''c1'', chunkOf ''MARVIN'' ''T1'' ''c2'']
             [waiting ''MARVIN'' ''T1'' ''FULL'' 100 2])
          ''META'' ''marvin'' ''t1'' ''C1'' ''FULL'')))) = [''c2'']
   \<and> fullSyncMetaCount
       (GormDB (snd (ModifyWaitAndFullSyncTableMetaRecord
          (engineOver (\<lambda>done sql. Inr [])
             [chunkOf ''MARVIN'' ''T1'' ''c1'', chunkOf ''MARVIN'' ''T1'' ''c2'']
             [waiting ''MARVIN'' ''T1'' ''FULL'' 100 2])
          ''META'' ''marvin'' ''t1'' ''C1'' ''FULL''))) ''marvin'' ''t1'' = 1
   \<and> map FullSplitTimes (wait_sync_meta
       (GormDB (snd (ModifyWaitAndFullSyncTableMetaRecord
          (engineOver (\<lambda>done sql. Inr [])
             [chunkOf ''MARVIN'' ''T1'' ''c1'', chunkOf ''MARVIN'' ''T1'' ''c2'']
             [waiting ''MARVIN'' ''T1'' ''FULL'' 100 2])
          ''META'' ''marvin'' ''t1'' ''C1'' ''FULL'')))) = [1]"
proof -
  let ?e = "engineOver (\<lambda>done sql. Inr [])
             [chunkOf ''MARVIN'' ''T1'' ''c1'', chunkOf ''MARVIN'' ''T1'' ''c2'']
             [waiting ''MARVIN'' ''T1'' ''FULL'' 100 2]"
  let ?run = "ModifyWaitAndFullSyncTableMetaRecord ?e ''META'' ''marvin'' ''t1'' ''C1'' ''FULL''"
  have a: "isASCII ''marvin''" "isASCII ''t1''" "isASCII ''C1''"
    "list_all (\<lambda>r. isASCII (RowidSQL r)) (full_sync_meta (GormDB ?e))"
    by (simp_all add: isASCII_def engineOver_def chunkOf_def)
  have one: "length (filter (\<lambda>r. FullSyncMeta.SourceSchemaName r = ToUpper ''marvin'' \<and>
                               FullSyncMeta.SourceTableName r = ToUpper ''t1'' \<and>
                               ToUpper (RowidSQL r) = ToUpper ''C1'')
                    (full_sync_meta (GormDB ?e))) = 1"
    by (simp add: engineOver_def chunkOf_def upper_eval)
  note inst = delete_chunk_atomic [OF a one, where metaSchemaName = "''META''"
      and syncMode = "''FULL''"]
  have clean: "faults (GormDB ?e) = []" by (simp add: engineOver_def)
  from inst clean have ok: "fst ?run = None" by blast
  then obtain e' where run: "?run = (None, e')" by (cases ?run) simp
  have before: "fullSyncMetaCount (GormDB ?e) ''marvin'' ''t1'' = 2"
    by (simp add: fullSyncMetaCount_def engineOver_def chunkOf_def upper_eval)
  from inst run have "fullSyncMetaCount (GormDB e') ''marvin'' ''t1''
      = fullSyncMetaCount (GormDB ?e) ''marvin'' ''t1'' - 1"
    by simp
  with before have c: "fullSyncMetaCount (GormDB e') ''marvin'' ''t1'' = 1" by simp
  from inst run have "full_sync_meta (GormDB e') =
           filter (\<lambda>r. \<not> (FullSyncMeta.SourceSchemaName r = ToUpper ''marvin'' \<and>
                          FullSyncMeta.SourceTableName r = ToUpper ''t1'' \<and>
                          ToUpper (RowidSQL r) = ToUpper ''C1''))
             (full_sync_meta (GormDB ?e))"
    by simp
  then have r: "map RowidSQL (full_sync_meta (GormDB e')) = [''c2'']"
    by (simp add: engineOver_def chunkOf_def upper_eval)
  from inst run have "wait_sync_meta (GormDB e') =
           map (\<lambda>w. if WaitSyncMeta.SourceSchemaName w = ToUpper ''marvin'' \<and>
                        WaitSyncMeta.SourceTableName w = ToUpper ''t1'' \<and>
                        SyncMode w = ''FULL''
                     then w\<lparr>FullSplitTimes := FullSplitTimes w - 1\<rparr> else w)
             (wait_sync_meta (GormDB ?e))"
    by simp
  then have w: "map FullSplitTimes (wait_sync_meta (GormDB e')) = [1]"
    by (simp add: engineOver_def waiting_def upper_eval)
  from ok run r c w show ?thesis by simp
qed
section \<open>Properties of the table assembly\<close>

text \<open>Where a collation is found, it is the table's before the schema's, and the
  database's \<open>NLS_COMP\<close> when the source has no table collations; a collation that is
  not in the table ends \<open>GenCreateTableSQL\<close> with an error; and a statement that is
  returned starts with the head built around the resolved collation.\<close>

lemma collation_of_table:
  "OracleCollation t \<Longrightarrow> SourceTableCollation t \<noteq> [] \<Longrightarrow>
   OracleCollationMap deps (SourceTableCollation t) = Some val \<Longrightarrow>
   Table.SourceTableName t \<noteq> [] \<Longrightarrow>
   tableCollationOf deps t = Inr val"
  by (simp add: tableCollationOf_def)

lemma collation_of_schema:
  "OracleCollation t \<Longrightarrow> SourceTableCollation t = [] \<Longrightarrow> SourceSchemaCollation t \<noteq> [] \<Longrightarrow>
   OracleCollationMap deps (SourceSchemaCollation t) = Some val \<Longrightarrow>
   tableCollationOf deps t = Inr val"
  by (simp add: tableCollationOf_def)

lemma collation_of_database:
  "\<not> OracleCollation t \<Longrightarrow> OracleCollationMap deps (SourceDBNLSComp t) = Some val \<Longrightarrow>
   tableCollationOf deps t = Inr val"
  by (simp add: tableCollationOf_def)

lemma collation_miss_is_fatal:
  "OracleCollation t \<Longrightarrow> SourceTableCollation t \<noteq> [] \<Longrightarrow>
   OracleCollationMap deps (SourceTableCollation t) = None \<Longrightarrow>
   GenCreateTableSQL deps t modifyTableName = Inl (UnsupportedCollation (SourceTableCollation t))"
  "OracleCollation t \<Longrightarrow> SourceTableCollation t = [] \<Longrightarrow> SourceSchemaCollation t \<noteq> [] \<Longrightarrow>
   OracleCollationMap deps (SourceSchemaCollation t) = None \<Longrightarrow>
   GenCreateTableSQL deps t modifyTableName = Inl (UnsupportedCollation (SourceSchemaCollation t))"
  "\<not> OracleCollation t \<Longrightarrow> OracleCollationMap deps (SourceDBNLSComp t) = None \<Longrightarrow>
   GenCreateTableSQL deps t modifyTableName = Inl (UnsupportedCollation (SourceDBNLSComp t))"
  by (simp_all add: GenCreateTableSQL_def tableCollationOf_def)

lemma empty_collations_pass:
  "OracleCollation t \<Longrightarrow> SourceTableCollation t = [] \<Longrightarrow> SourceSchemaCollation t = [] \<Longrightarrow>
   Table.SourceTableName t \<noteq> [] \<Longrightarrow>
   tableCollationOf deps t = Inr []"
  by (simp add: tableCollationOf_def)

lemma head_prefix:
  "prefix h (createOptionDisabled h c)" "prefix h (createOptionEnabled h opt c)"
  by (simp_all add: createOptionDisabled_def createOptionEnabled_def createPlain_def
      createWithComment_def createWithOption_def createWithOptionAndComment_def)

lemma statement_holds_resolved_collation:
  assumes "GenCreateTableSQL deps t modifyTableName = Inr (sql, compIndexINFO)"
  shows "\<exists>tableCollation tableMeta.
           tableCollationOf deps t = Inr tableCollation \<and>
           prefix (createTableHead deps t modifyTableName tableMeta tableCollation) sql"
proof -
  from assms obtain c where c: "tableCollationOf deps t = Inr c"
    by (cases "tableCollationOf deps t") (simp_all add: GenCreateTableSQL_def)
  from assms c have "\<exists>tableMeta. prefix (createTableHead deps t modifyTableName tableMeta c) sql"
    unfolding GenCreateTableSQL_def Let_def
    by (auto split: sum.splits list.splits if_splits prod.splits intro: head_prefix)
  with c show ?thesis by blast
qed

lemmas create_eval = GenCreateTableSQL_def tableCollationOf_def GenCreateUKSQL_def
  reverserOracleTableUKToMySQL_def GenCreateNonUniqueIndex_def reverserOracleTableNormalIndexToMySQL_def
  GenCreateUniqueIndex_def reverserOracleTableUniqueIndexToMySQL_def reverserOracleTablePKToMySQL_def
  reverserOracleTableColumnToMySQL_def createTableHead_def createOptionDisabled_def createPlain_def
  createWithComment_def row_get_def depsExample_def oneColumnCatalog_def tableOver_def emptyCatalog_def
  ToLower_def lower_char_def lower_letters_def upper_letters_def Let_def

lemma database_collation_example:
  "GenCreateTableSQL depsExample (tableOver oneColumnCatalog) ''T1''
     = Inr (''CREATE TABLE `MARVIN`.`T1` ('' @ [CHR 0x0A] @ ''`ID` INT'' @ [CHR 0x0A]
              @ '') ENGINE=InnoDB DEFAULT CHARSET=utf8mb4 COLLATE=utf8mb4_bin;'', [])"
  by (simp add: create_eval)


text \<open>
  Claim C8. The \<open>COLLATE\<close> value is the mapped table collation, else the mapped schema
  collation, else (without table collations in the source) the mapping of \<open>NLS_COMP\<close>,
  and every miss is fatal, also when the table collation and the schema collation are
  both empty. The lemmas above give all of it but the last case: the \<open>if\<close> that should
  refuse two empty collations tests the table's name, which is never empty. For a
  table \<open>T1\<close> of a source with table collations whose two collations are empty,
  \<open>GenCreateTableSQL\<close> returns a statement with an empty \<open>COLLATE=\<close>.
\<close>

theorem empty_collations_emit_empty_collate:
  "GenCreateTableSQL depsExample ((tableOver oneColumnCatalog)\<lparr>OracleCollation := True\<rparr>) ''T1''
     = Inr (''CREATE TABLE `MARVIN`.`T1` ('' @ [CHR 0x0A] @ ''`ID` INT'' @ [CHR 0x0A]
              @ '') ENGINE=InnoDB DEFAULT CHARSET=utf8mb4 COLLATE=;'', [])"
  by (simp add: create_eval)


end
